theory Spec2Isabelle
  imports Complex_Main "HOL-Library.Product_Lexorder"
begin

section \<open>JavaScript values\<close>

text \<open>
  Object ids and dates are opaque to the handlers: an id is only compared with
  another id, a date is only stored. Ids are natural numbers, dates are
  milliseconds since the epoch. A number of a request body or of the store is
  an exact rational or \<open>NaN\<close>: the handlers compare and store numbers, they do
  not compute with them. An infinite number, which \<open>parseFloat\<close> can return and
  the validators accept, is not a number of the store of this model. The
  arithmetic of the getter \<open>budgetStatus\<close>, on doubles with their rounding and
  their infinities, has a section of its own.
\<close>

type_synonym oid = nat
type_synonym date = nat

text \<open>
  A date in a request body is a number of milliseconds or a date string, given
  here by the instant it denotes. In \<open>date || new Date()\<close> the number 0 is
  falsy; a date string is not.
\<close>

datatype date_input = Millis date | Iso date

definition date_or :: "date_input option \<Rightarrow> date \<Rightarrow> date" where
  "date_or d now =
     (case d of
        None \<Rightarrow> now
      | Some (Millis t) \<Rightarrow> if t = 0 then now else t
      | Some (Iso t) \<Rightarrow> t)"

text \<open>The cast of a supplied date to the Date of a schema path.\<close>

definition cast_date :: "date_input \<Rightarrow> date" where
  "cast_date d = (case d of Millis t \<Rightarrow> t | Iso t \<Rightarrow> t)"

datatype number = NaN | Num rat

text \<open>\<open>Math.round\<close> rounds to the nearest integer, a tie going up.\<close>

definition Math_round :: "rat \<Rightarrow> int" where
  "Math_round x = \<lfloor>x + 1 / 2\<rfloor>"

text \<open>\<open>!x\<close> on a string field of a request body: \<open>undefined\<close> and the empty string are falsy.\<close>

definition falsy :: "string option \<Rightarrow> bool" where
  "falsy x = (case x of None \<Rightarrow> True | Some s \<Rightarrow> s = [])"

text \<open>
  The \<open>trim: true\<close> setter of a String path is \<open>String.prototype.trim\<close>. A
  character is a code unit below 256; the white space of JavaScript in that
  range is the six ASCII characters and the no-break space U+00A0. The code
  points above that range are not characters of this model.
\<close>

definition is_space :: "char \<Rightarrow> bool" where
  "is_space c = (c = CHR '' '' \<or> c = CHR 0x09 \<or> c = CHR 0x0A \<or> c = CHR 0x0B
                 \<or> c = CHR 0x0C \<or> c = CHR 0x0D \<or> c = CHR 0xA0)"

definition trim :: "string \<Rightarrow> string" where
  "trim s = rev (dropWhile is_space (rev (dropWhile is_space s)))"

section \<open>models/Project.js\<close>

record project =
  p_id :: oid
  p_name :: string
  p_description :: "string option"
  p_budget :: rat
  p_startDate :: date
  p_endDate :: "date option"
  p_createdBy :: oid
  p_members :: "oid list"
  p_createdAt :: date
  p_updatedAt :: date

record budget_status =
  totalSpent :: rat
  percentage :: int
  remaining :: rat
  isOverBudget :: bool

text \<open>
  The virtual \<open>budgetStatus\<close>. Its two inputs are \<open>this.budget\<close> and
  \<open>this.totalExpenses\<close>; the latter is \<open>None\<close> while the virtual relation has not
  been populated, and otherwise the list of the \<open>amount\<close> fields of the populated
  expenses (\<open>None\<close> for an expense that carries no amount). \<open>exp.amount || 0\<close>
  reads a missing amount as 0, and the amount 0 is falsy and read as 0 as well.
  This definition is the getter on the exact numbers of the store, as the
  handlers of the model call it: it gives the shape of the result, null or a
  record, and which expenses count. The numbers the code returns are those of
  doubles; they are the subject of \<open>budgetStatus_double\<close> in the next section.
\<close>

definition amount_or_0 :: "rat option \<Rightarrow> rat" where
  "amount_or_0 a = (case a of None \<Rightarrow> 0 | Some v \<Rightarrow> if v = 0 then 0 else v)"

definition budgetStatus :: "rat \<Rightarrow> rat option list option \<Rightarrow> budget_status option" where
  "budgetStatus budget totalExpenses =
     (case totalExpenses of
        None \<Rightarrow> None
      | Some exps \<Rightarrow>
          let total = foldl (\<lambda>sum exp. sum + amount_or_0 exp) 0 exps;
              percentage = (if budget \<noteq> 0
                            then min 100 (Math_round ((total / budget) * 100)) else 0)
          in Some \<lparr> totalSpent = total,
                    percentage = percentage,
                    remaining = (if budget \<noteq> 0 then max 0 (budget - total) else 0),
                    isOverBudget = (if budget \<noteq> 0 then total > budget else False) \<rparr>)"

text \<open>
  The validators of the schema: \<open>name\<close> is required (a String path rejects the
  empty string, and the value arrives trimmed), \<open>budget\<close> is a required Number with
  \<open>min: 0\<close> (\<open>NaN\<close> does not cast to a Number).
\<close>

definition project_name_valid :: "string \<Rightarrow> bool" where
  "project_name_valid n = (n \<noteq> [])"

definition project_budget_valid :: "number \<Rightarrow> bool" where
  "project_budget_valid n = (case n of NaN \<Rightarrow> False | Num b \<Rightarrow> 0 \<le> b)"

section \<open>The getter on doubles\<close>

text \<open>
  The numbers the getter computes with are IEEE 754 doubles. A double is
  \<open>NaN\<close>, one of the two infinities, or finite, and a finite double is given
  by its exact value, a rational. The result of an operation on finite doubles
  is its exact result rounded to the nearest double, a tie going to the even
  significand, and to an infinity from \<open>2 ^ 1024\<close> on. \<open>-0\<close> is not told apart
  from 0: the two are equal under every comparison, serialise alike, and with a
  budget and amounts that are not negative no operation of the getter yields it.
\<close>

datatype double = Not_a_Number | Infinity | Neg_Infinity | Finite rat

text \<open>
  Rounding. For \<open>x > 0\<close> with \<open>2 ^ e \<le> x < 2 ^ (e + 1)\<close> the doubles around \<open>x\<close> are the
  multiples of \<open>2 ^ (e - 52)\<close>, and of \<open>2 ^ -1074\<close> below the normal range.
\<close>

definition pow2 :: "int \<Rightarrow> rat" where
  "pow2 k = (if 0 \<le> k then 2 ^ nat k else 1 / 2 ^ nat (- k))"

fun bit_length :: "nat \<Rightarrow> nat" where
  "bit_length n = (if n = 0 then 0 else Suc (bit_length (n div 2)))"

declare bit_length.simps [simp del]

definition ilog2 :: "rat \<Rightarrow> int" where
  "ilog2 x =
     (if 1 \<le> x then int (bit_length (nat \<lfloor>x\<rfloor>)) - 1
      else let k = int (bit_length (nat \<lfloor>1 / x\<rfloor>)) - 1
           in if x = pow2 (- k) then - k else - k - 1)"

definition round_even :: "rat \<Rightarrow> int" where
  "round_even m =
     (let n = \<lfloor>m\<rfloor>; f = m - of_int n
      in if f < 1 / 2 then n else if 1 / 2 < f then n + 1 else if even n then n else n + 1)"

definition round_pos :: "rat \<Rightarrow> double" where
  "round_pos x =
     (let e = ilog2 x; q = max e (- 1022) - 52;
          y = of_int (round_even (x / pow2 q)) * pow2 q
      in if pow2 1024 \<le> y then Infinity else Finite y)"

definition negate :: "double \<Rightarrow> double" where
  "negate x = (case x of Not_a_Number \<Rightarrow> Not_a_Number | Infinity \<Rightarrow> Neg_Infinity
               | Neg_Infinity \<Rightarrow> Infinity | Finite r \<Rightarrow> Finite (- r))"

definition fl :: "rat \<Rightarrow> double" where
  "fl x = (if x = 0 then Finite 0 else if 0 < x then round_pos x else negate (round_pos (- x)))"



text \<open>The operators \<open>+\<close>, \<open>-\<close>, \<open>*\<close>, \<open>/\<close> and \<open>>\<close> of JavaScript on numbers.\<close>

fun plus_d :: "double \<Rightarrow> double \<Rightarrow> double" where
  "plus_d (Finite x) (Finite y) = fl (x + y)"
| "plus_d Not_a_Number _ = Not_a_Number"
| "plus_d _ Not_a_Number = Not_a_Number"
| "plus_d Infinity Neg_Infinity = Not_a_Number"
| "plus_d Neg_Infinity Infinity = Not_a_Number"
| "plus_d Infinity _ = Infinity"
| "plus_d _ Infinity = Infinity"
| "plus_d Neg_Infinity _ = Neg_Infinity"
| "plus_d _ Neg_Infinity = Neg_Infinity"

definition minus_d :: "double \<Rightarrow> double \<Rightarrow> double" where
  "minus_d a b = plus_d a (negate b)"

fun times_d :: "double \<Rightarrow> double \<Rightarrow> double" where
  "times_d (Finite x) (Finite y) = fl (x * y)"
| "times_d Not_a_Number _ = Not_a_Number"
| "times_d _ Not_a_Number = Not_a_Number"
| "times_d (Finite x) b = (if x = 0 then Not_a_Number else if 0 < x then b else negate b)"
| "times_d a (Finite y) = (if y = 0 then Not_a_Number else if 0 < y then a else negate a)"
| "times_d a b = (if a = b then Infinity else Neg_Infinity)"

fun divide_d :: "double \<Rightarrow> double \<Rightarrow> double" where
  "divide_d (Finite x) (Finite y) =
     (if y = 0 then (if x = 0 then Not_a_Number else if 0 < x then Infinity else Neg_Infinity)
      else fl (x / y))"
| "divide_d Not_a_Number _ = Not_a_Number"
| "divide_d _ Not_a_Number = Not_a_Number"
| "divide_d (Finite x) b = Finite 0"
| "divide_d a (Finite y) = (if 0 \<le> y then a else negate a)"
| "divide_d a b = Not_a_Number"

fun greater_d :: "double \<Rightarrow> double \<Rightarrow> bool" where
  "greater_d (Finite x) (Finite y) = (y < x)"
| "greater_d Not_a_Number _ = False"
| "greater_d _ Not_a_Number = False"
| "greater_d Infinity b = (b \<noteq> Infinity)"
| "greater_d a Neg_Infinity = (a \<noteq> Neg_Infinity)"
| "greater_d a b = False"

text \<open>
  \<open>Math.round\<close> gives the integer nearest to its argument, a tie going up;
  \<open>Math.min\<close> and \<open>Math.max\<close> give \<open>NaN\<close> when an argument is \<open>NaN\<close>. A number is
  falsy when it is 0 or \<open>NaN\<close>.
\<close>

definition Math_round_d :: "double \<Rightarrow> double" where
  "Math_round_d x = (case x of Finite r \<Rightarrow> Finite (of_int \<lfloor>r + 1 / 2\<rfloor>) | _ \<Rightarrow> x)"

definition Math_min_d :: "double \<Rightarrow> double \<Rightarrow> double" where
  "Math_min_d a b =
     (if a = Not_a_Number \<or> b = Not_a_Number then Not_a_Number
      else if greater_d a b then b else a)"

definition Math_max_d :: "double \<Rightarrow> double \<Rightarrow> double" where
  "Math_max_d a b =
     (if a = Not_a_Number \<or> b = Not_a_Number then Not_a_Number
      else if greater_d a b then a else b)"

definition falsy_d :: "double \<Rightarrow> bool" where
  "falsy_d x = (x = Not_a_Number \<or> x = Finite 0)"

text \<open>
  The getter \<open>budgetStatus\<close> on doubles: the same steps as above, each in the
  arithmetic the code runs. The statement on the numbers it returns is made of
  this definition.
\<close>

definition amount_or_zero :: "double option \<Rightarrow> double" where
  "amount_or_zero a = (case a of None \<Rightarrow> Finite 0 | Some v \<Rightarrow> if falsy_d v then Finite 0 else v)"

record double_status =
  ds_totalSpent :: double
  ds_percentage :: double
  ds_remaining :: double
  ds_isOverBudget :: bool

definition budgetStatus_double :: "double \<Rightarrow> double option list option \<Rightarrow> double_status option" where
  "budgetStatus_double budget totalExpenses =
     (case totalExpenses of
        None \<Rightarrow> None
      | Some exps \<Rightarrow>
          let total = foldl (\<lambda>sum exp. plus_d sum (amount_or_zero exp)) (Finite 0) exps;
              percentage = (if \<not> falsy_d budget
                            then Math_min_d (Finite 100)
                                   (Math_round_d (times_d (divide_d total budget) (Finite 100)))
                            else Finite 0)
          in Some \<lparr> ds_totalSpent = total,
                    ds_percentage = percentage,
                    ds_remaining = (if \<not> falsy_d budget
                                    then Math_max_d (Finite 0) (minus_d budget total)
                                    else Finite 0),
                    ds_isOverBudget = (if \<not> falsy_d budget then greater_d total budget
                                       else False) \<rparr>)"



section \<open>The Expense model\<close>

record expense =
  e_id :: oid
  e_description :: string
  e_amount :: rat
  e_category :: string
  e_date :: date
  e_project :: oid
  e_createdBy :: oid
  e_createdAt :: date
  e_updatedAt :: date

definition categories :: "string list" where
  "categories = [''marketing'', ''development'', ''design'', ''operations'', ''hr'', ''other'']"

text \<open>
  \<open>description\<close> is required and trimmed, \<open>amount\<close> is a required Number with
  \<open>min: 0.01\<close>, \<open>category\<close> is required and one of the enumeration.
\<close>

definition expense_description_valid :: "string \<Rightarrow> bool" where
  "expense_description_valid d = (d \<noteq> [])"

definition expense_amount_valid :: "number \<Rightarrow> bool" where
  "expense_amount_valid n = (case n of NaN \<Rightarrow> False | Num a \<Rightarrow> 1 / 100 \<le> a)"

definition expense_category_valid :: "string \<Rightarrow> bool" where
  "expense_category_valid c = (c \<in> set categories)"

section \<open>The store\<close>

text \<open>
  The two collections, in insertion order, and the source of fresh object ids.
  A query on one document (\<open>findOne\<close>, \<open>findById\<close>, \<open>updateOne\<close>,
  \<open>findOneAndUpdate\<close>, \<open>findOneAndDelete\<close>, \<open>findByIdAndDelete\<close>) acts on the
  first document that matches its filter.
\<close>

record db =
  projects :: "project list"
  expenses :: "expense list"
  next_id :: oid

definition empty_db :: db where
  "empty_db = \<lparr> projects = [], expenses = [], next_id = 0 \<rparr>"

fun update_first :: "('a \<Rightarrow> bool) \<Rightarrow> ('a \<Rightarrow> 'a) \<Rightarrow> 'a list \<Rightarrow> 'a list" where
  "update_first P f [] = []"
| "update_first P f (x # xs) = (if P x then f x # xs else x # update_first P f xs)"

fun delete_first :: "('a \<Rightarrow> bool) \<Rightarrow> 'a list \<Rightarrow> 'a list" where
  "delete_first P [] = []"
| "delete_first P (x # xs) = (if P x then xs else x # delete_first P xs)"

text \<open>The filter \<open>$or: [{createdBy: user}, {members: user}]\<close>.\<close>

definition has_access :: "oid \<Rightarrow> project \<Rightarrow> bool" where
  "has_access user p = (p_createdBy p = user \<or> user \<in> set (p_members p))"

text \<open>Populating the virtual \<open>totalExpenses\<close>: the amounts of the expenses of the project.\<close>

definition populate_totalExpenses :: "db \<Rightarrow> project \<Rightarrow> rat option list option" where
  "populate_totalExpenses s p =
     Some (map (\<lambda>e. Some (e_amount e)) (filter (\<lambda>e. e_project e = p_id p) (expenses s)))"

section \<open>Responses\<close>

text \<open>
  A document produced by the aggregation pipeline is a list of keys and values.
  A project is serialised with its virtuals, so it carries its budget status,
  null or not. The references to users stay ids: the user model is not part of
  these files.
\<close>

datatype json = JString string | JNumber rat

datatype payload =
    ProjectData project "budget_status option"
  | ProjectList "(project \<times> budget_status option) list"
  | ExpenseData expense
  | ExpenseList "expense list"
  | Deleted
  | SummaryData "(string \<times> json) list list"
  | Error string

record response =
  status :: nat
  ok :: bool
  body :: payload

definition reply :: "nat \<Rightarrow> bool \<Rightarrow> payload \<Rightarrow> response" where
  "reply code flag b = \<lparr> status = code, ok = flag, body = b \<rparr>"

section \<open>routes/project.routes.js\<close>

text \<open>\<open>GET /\<close>: the projects of the caller, the last updated first, each populated.\<close>

definition listProjects :: "oid \<Rightarrow> db \<Rightarrow> response \<times> db" where
  "listProjects user s =
     (let found = sort_key (\<lambda>p. - int (p_updatedAt p)) (filter (has_access user) (projects s))
      in (reply 200 True
            (ProjectList
               (map (\<lambda>p. (p, budgetStatus (p_budget p) (populate_totalExpenses s p))) found)),
          s))"

text \<open>
  The body of a request. A field is \<open>None\<close> when the body does not carry it
  (\<open>undefined\<close>). A numeric field is given by what \<open>parseFloat\<close> returns on it.
\<close>

record project_body =
  pb_name :: "string option"
  pb_description :: "string option"
  pb_budget :: "number option"
  pb_startDate :: "date_input option"
  pb_endDate :: "date_input option"
  pb_members :: "oid list option"

text \<open>
  \<open>POST /\<close>. \<open>project.save()\<close> validates the document and throws when a validator
  fails; the handler's \<open>catch\<close> answers 500.
\<close>

definition createProject :: "date \<Rightarrow> oid \<Rightarrow> project_body \<Rightarrow> db \<Rightarrow> response \<times> db" where
  "createProject now user b s =
     (if falsy (pb_name b) \<or> pb_budget b = None
      then (reply 400 False (Error ''Name and budget are required''), s)
      else
        (case (pb_name b, pb_budget b) of
           (Some name, Some budget) \<Rightarrow>
             (case budget of
                Num amount \<Rightarrow>
                  if project_name_valid (trim name) \<and> project_budget_valid budget
                  then
                    let project = \<lparr> p_id = next_id s,
                                     p_name = trim name,
                                     p_description = map_option trim (pb_description b),
                                     p_budget = amount,
                                     p_startDate = date_or (pb_startDate b) now,
                                     p_endDate = map_option cast_date (pb_endDate b),
                                     p_createdBy = user,
                                     p_members = [user],
                                     p_createdAt = now,
                                     p_updatedAt = now \<rparr>
                    in (reply 201 True (ProjectData project (budgetStatus (p_budget project) None)),
                        s\<lparr> projects := projects s @ [project], next_id := Suc (next_id s) \<rparr>)
                  else (reply 500 False (Error ''Failed to create project''), s)
              | NaN \<Rightarrow> (reply 500 False (Error ''Failed to create project''), s))
         | _ \<Rightarrow> (reply 400 False (Error ''Name and budget are required''), s)))"

text \<open>\<open>GET /:id\<close>.\<close>

definition getProject :: "oid \<Rightarrow> oid \<Rightarrow> db \<Rightarrow> response \<times> db" where
  "getProject user pid s =
     (case find (\<lambda>p. p_id p = pid \<and> has_access user p) (projects s) of
        None \<Rightarrow> (reply 404 False (Error ''Project not found''), s)
      | Some project \<Rightarrow>
          (reply 200 True
             (ProjectData project (budgetStatus (p_budget project) (populate_totalExpenses s project))),
           s))"

text \<open>
  \<open>PUT /:id\<close>. The object \<open>updates\<close> holds the fields of the body that are not
  \<open>undefined\<close>. \<open>members.includes(req.user._id)\<close> looks for the ObjectId of the
  caller among the strings of the parsed body and finds none of them identical
  to it, so the caller is pushed onto every supplied \<open>members\<close> array, also
  onto one that names the caller already. The update validators
  (\<open>runValidators: true\<close>) check the supplied paths before the query is sent;
  \<open>timestamps\<close> sets \<open>updatedAt\<close> on the updated document.
\<close>

definition project_updates_valid :: "project_body \<Rightarrow> bool" where
  "project_updates_valid u =
     ((case pb_name u of None \<Rightarrow> True | Some n \<Rightarrow> project_name_valid (trim n))
      \<and> (case pb_budget u of None \<Rightarrow> True | Some n \<Rightarrow> project_budget_valid n))"

definition set_project :: "project_body \<Rightarrow> date \<Rightarrow> project \<Rightarrow> project" where
  "set_project u now p =
     p\<lparr> p_name := (case pb_name u of None \<Rightarrow> p_name p | Some n \<Rightarrow> trim n),
        p_description := (case pb_description u of None \<Rightarrow> p_description p | Some d \<Rightarrow> Some (trim d)),
        p_budget := (case pb_budget u of Some (Num a) \<Rightarrow> a | _ \<Rightarrow> p_budget p),
        p_startDate := (case pb_startDate u of None \<Rightarrow> p_startDate p | Some d \<Rightarrow> cast_date d),
        p_endDate := (case pb_endDate u of None \<Rightarrow> p_endDate p | Some d \<Rightarrow> Some (cast_date d)),
        p_members := (case pb_members u of None \<Rightarrow> p_members p | Some ms \<Rightarrow> ms),
        p_updatedAt := now \<rparr>"

definition updateProject :: "date \<Rightarrow> oid \<Rightarrow> oid \<Rightarrow> project_body \<Rightarrow> db \<Rightarrow> response \<times> db" where
  "updateProject now user pid b s =
     (let updates = b\<lparr> pb_members :=
                         (case pb_members b of
                            None \<Rightarrow> None
                          | Some members \<Rightarrow> Some (members @ [user])) \<rparr>
      in if \<not> project_updates_valid updates
         then (reply 500 False (Error ''Failed to update project''), s)
         else
           (case find (\<lambda>p. p_id p = pid \<and> p_createdBy p = user) (projects s) of
              None \<Rightarrow> (reply 404 False (Error ''Project not found or not authorized''), s)
            | Some project \<Rightarrow>
                (reply 200 True
                   (ProjectData (set_project updates now project)
                      (budgetStatus (p_budget (set_project updates now project)) None)),
                 s\<lparr> projects := update_first (\<lambda>p. p_id p = pid \<and> p_createdBy p = user)
                                    (set_project updates now) (projects s) \<rparr>)))"

text \<open>\<open>DELETE /:id\<close>, with the \<open>deleteMany\<close> of the expenses of the project.\<close>

definition deleteProject :: "oid \<Rightarrow> oid \<Rightarrow> db \<Rightarrow> response \<times> db" where
  "deleteProject user pid s =
     (case find (\<lambda>p. p_id p = pid \<and> p_createdBy p = user) (projects s) of
        None \<Rightarrow> (reply 404 False (Error ''Project not found or not authorized''), s)
      | Some project \<Rightarrow>
          (reply 200 True Deleted,
           s\<lparr> projects := delete_first (\<lambda>p. p_id p = pid \<and> p_createdBy p = user) (projects s),
              expenses := filter (\<lambda>e. e_project e \<noteq> p_id project) (expenses s) \<rparr>))"

text \<open>\<open>POST /:id/members\<close>, with \<open>$addToSet\<close>.\<close>

definition addToSet :: "'a \<Rightarrow> 'a list \<Rightarrow> 'a list" where
  "addToSet x xs = (if x \<in> set xs then xs else xs @ [x])"

definition addMember :: "date \<Rightarrow> oid \<Rightarrow> oid \<Rightarrow> oid option \<Rightarrow> db \<Rightarrow> response \<times> db" where
  "addMember now user pid userId s =
     (case userId of
        None \<Rightarrow> (reply 400 False (Error ''User ID is required''), s)
      | Some member \<Rightarrow>
          (case find (\<lambda>p. p_id p = pid \<and> p_createdBy p = user \<and> member \<notin> set (p_members p))
                  (projects s) of
             None \<Rightarrow> (reply 404 False
                        (Error ''Project not found, not authorized, or user already a member''), s)
           | Some project \<Rightarrow>
               (let project' = project\<lparr> p_members := addToSet member (p_members project),
                                        p_updatedAt := now \<rparr>
                in (reply 200 True (ProjectData project' (budgetStatus (p_budget project') None)),
                    s\<lparr> projects :=
                         update_first
                           (\<lambda>p. p_id p = pid \<and> p_createdBy p = user \<and> member \<notin> set (p_members p))
                           (\<lambda>p. p\<lparr> p_members := addToSet member (p_members p), p_updatedAt := now \<rparr>)
                           (projects s) \<rparr>))))"

section \<open>routes/expense.routes.js\<close>

text \<open>\<open>GET /project/:projectId\<close>: the expenses of a project, by \<open>date\<close> and then
  \<open>createdAt\<close>, both descending.\<close>

definition listExpenses :: "oid \<Rightarrow> oid \<Rightarrow> db \<Rightarrow> response \<times> db" where
  "listExpenses user pid s =
     (case find (\<lambda>p. p_id p = pid \<and> has_access user p) (projects s) of
        None \<Rightarrow> (reply 404 False (Error ''Project not found or access denied''), s)
      | Some project \<Rightarrow>
          (reply 200 True
             (ExpenseList
                (sort_key (\<lambda>e. (- int (e_date e), - int (e_createdAt e)))
                   (filter (\<lambda>e. e_project e = pid) (expenses s)))),
           s))"

record expense_body =
  eb_description :: "string option"
  eb_amount :: "number option"
  eb_category :: "string option"
  eb_date :: "date_input option"
  eb_projectId :: "oid option"

text \<open>
  \<open>POST /\<close>. \<open>expense.save()\<close> validates first and throws when a validator fails;
  then the \<open>pre('save')\<close> hook of the model sets \<open>updatedAt\<close> of the project the
  expense refers to; then the expense is inserted.
\<close>

definition pre_save :: "date \<Rightarrow> oid \<Rightarrow> project list \<Rightarrow> project list" where
  "pre_save now this_project ps =
     update_first (\<lambda>p. p_id p = this_project) (\<lambda>p. p\<lparr> p_updatedAt := now \<rparr>) ps"

definition createExpense :: "date \<Rightarrow> oid \<Rightarrow> expense_body \<Rightarrow> db \<Rightarrow> response \<times> db" where
  "createExpense now user b s =
     (if falsy (eb_description b) \<or> eb_amount b = None \<or> falsy (eb_category b)
         \<or> eb_projectId b = None
      then (reply 400 False (Error ''Description, amount, category, and project ID are required''), s)
      else
        (case (eb_description b, eb_amount b, eb_category b, eb_projectId b) of
           (Some description, Some amount, Some category, Some projectId) \<Rightarrow>
             (case find (\<lambda>p. p_id p = projectId \<and> has_access user p) (projects s) of
                None \<Rightarrow> (reply 404 False (Error ''Project not found or access denied''), s)
              | Some project \<Rightarrow>
                  (case amount of
                     Num a \<Rightarrow>
                       if expense_description_valid (trim description)
                          \<and> expense_amount_valid amount \<and> expense_category_valid category
                       then
                         let expense = \<lparr> e_id = next_id s,
                                          e_description = trim description,
                                          e_amount = a,
                                          e_category = category,
                                          e_date = date_or (eb_date b) now,
                                          e_project = projectId,
                                          e_createdBy = user,
                                          e_createdAt = now,
                                          e_updatedAt = now \<rparr>
                         in (reply 201 True (ExpenseData expense),
                             s\<lparr> projects := pre_save now (e_project expense) (projects s),
                                expenses := expenses s @ [expense],
                                next_id := Suc (next_id s) \<rparr>)
                       else (reply 500 False (Error ''Failed to create expense''), s)
                   | NaN \<Rightarrow> (reply 500 False (Error ''Failed to create expense''), s)))
         | _ \<Rightarrow> (reply 400 False
                   (Error ''Description, amount, category, and project ID are required''), s)))"

text \<open>
  The permission check of \<open>PUT /:id\<close> and \<open>DELETE /:id\<close>, on the expense with its
  project populated (\<open>None\<close> when no project has that id). The conjunction reads
  \<open>expense.project.createdBy\<close> only when the caller is not the creator of the
  expense; on a null project that read throws, and the handler's \<open>catch\<close>
  answers 500.
\<close>

datatype permission = Granted | Denied | Thrown

definition check_permission :: "oid \<Rightarrow> expense \<Rightarrow> project option \<Rightarrow> permission" where
  "check_permission user e populated =
     (if e_createdBy e \<noteq> user
      then (case populated of
              None \<Rightarrow> Thrown
            | Some p \<Rightarrow> if p_createdBy p \<noteq> user then Denied else Granted)
      else Granted)"

text \<open>
  \<open>PUT /:id\<close>. The object \<open>updates\<close> holds the fields \<open>description\<close>, \<open>amount\<close>,
  \<open>category\<close> and \<open>date\<close> of the body that are not \<open>undefined\<close>; the handler
  does not read \<open>projectId\<close>. The update runs the validators of the supplied paths.
\<close>

definition expense_updates_valid :: "expense_body \<Rightarrow> bool" where
  "expense_updates_valid u =
     ((case eb_description u of None \<Rightarrow> True | Some d \<Rightarrow> expense_description_valid (trim d))
      \<and> (case eb_amount u of None \<Rightarrow> True | Some n \<Rightarrow> expense_amount_valid n)
      \<and> (case eb_category u of None \<Rightarrow> True | Some c \<Rightarrow> expense_category_valid c))"

definition set_expense :: "expense_body \<Rightarrow> date \<Rightarrow> expense \<Rightarrow> expense" where
  "set_expense u now e =
     e\<lparr> e_description := (case eb_description u of None \<Rightarrow> e_description e | Some d \<Rightarrow> trim d),
        e_amount := (case eb_amount u of Some (Num a) \<Rightarrow> a | _ \<Rightarrow> e_amount e),
        e_category := (case eb_category u of None \<Rightarrow> e_category e | Some c \<Rightarrow> c),
        e_date := (case eb_date u of None \<Rightarrow> e_date e | Some d \<Rightarrow> cast_date d),
        e_updatedAt := now \<rparr>"

definition updateExpense :: "date \<Rightarrow> oid \<Rightarrow> oid \<Rightarrow> expense_body \<Rightarrow> db \<Rightarrow> response \<times> db" where
  "updateExpense now user eid updates s =
     (case find (\<lambda>e. e_id e = eid) (expenses s) of
        None \<Rightarrow> (reply 404 False (Error ''Expense not found''), s)
      | Some expense \<Rightarrow>
          (case check_permission user expense
                  (find (\<lambda>p. p_id p = e_project expense) (projects s)) of
             Denied \<Rightarrow> (reply 403 False (Error ''Not authorized to update this expense''), s)
           | Thrown \<Rightarrow> (reply 500 False (Error ''Failed to update expense''), s)
           | Granted \<Rightarrow>
               if \<not> expense_updates_valid updates
               then (reply 500 False (Error ''Failed to update expense''), s)
               else (reply 200 True (ExpenseData (set_expense updates now expense)),
                     s\<lparr> expenses := update_first (\<lambda>e. e_id e = eid)
                                        (set_expense updates now) (expenses s) \<rparr>)))"

text \<open>\<open>DELETE /:id\<close>.\<close>

definition deleteExpense :: "oid \<Rightarrow> oid \<Rightarrow> db \<Rightarrow> response \<times> db" where
  "deleteExpense user eid s =
     (case find (\<lambda>e. e_id e = eid) (expenses s) of
        None \<Rightarrow> (reply 404 False (Error ''Expense not found''), s)
      | Some expense \<Rightarrow>
          (case check_permission user expense
                  (find (\<lambda>p. p_id p = e_project expense) (projects s)) of
             Denied \<Rightarrow> (reply 403 False (Error ''Not authorized to delete this expense''), s)
           | Thrown \<Rightarrow> (reply 500 False (Error ''Failed to delete expense''), s)
           | Granted \<Rightarrow>
               (reply 200 True Deleted,
                s\<lparr> expenses := delete_first (\<lambda>e. e_id e = eid) (expenses s) \<rparr>)))"

text \<open>
  \<open>GET /summary/project/:projectId\<close>. The pipeline is \<open>$match\<close>, \<open>$group\<close> and
  \<open>$sort\<close>. \<open>$group\<close> keeps one accumulator per value of \<open>$category\<close>, here in
  the order in which the values first occur; \<open>$sort: {total: -1}\<close> orders the
  groups by decreasing total. The documents of the result have the keys the
  \<open>$group\<close> stage names: \<open>_id\<close>, \<open>total\<close> and \<open>count\<close>.
\<close>

fun accumulate :: "string \<Rightarrow> rat \<Rightarrow> (string \<times> rat \<times> nat) list \<Rightarrow> (string \<times> rat \<times> nat) list" where
  "accumulate c a [] = [(c, a, 1)]"
| "accumulate c a ((k, tot, cnt) # gs) =
     (if k = c then (k, tot + a, cnt + 1) # gs else (k, tot, cnt) # accumulate c a gs)"

definition group_stage :: "expense list \<Rightarrow> (string \<times> rat \<times> nat) list" where
  "group_stage es = foldl (\<lambda>gs e. accumulate (e_category e) (e_amount e) gs) [] es"

definition sort_stage :: "(string \<times> rat \<times> nat) list \<Rightarrow> (string \<times> rat \<times> nat) list" where
  "sort_stage gs = sort_key (\<lambda>(k, tot, cnt). - tot) gs"

definition group_document :: "string \<times> rat \<times> nat \<Rightarrow> (string \<times> json) list" where
  "group_document g =
     (case g of (k, tot, cnt) \<Rightarrow>
        [(''_id'', JString k), (''total'', JNumber tot), (''count'', JNumber (of_nat cnt))])"

definition aggregate :: "oid \<Rightarrow> expense list \<Rightarrow> (string \<times> json) list list" where
  "aggregate pid es =
     map group_document (sort_stage (group_stage (filter (\<lambda>e. e_project e = pid) es)))"

definition summary :: "oid \<Rightarrow> oid \<Rightarrow> db \<Rightarrow> response \<times> db" where
  "summary user pid s =
     (case find (\<lambda>p. p_id p = pid \<and> has_access user p) (projects s) of
        None \<Rightarrow> (reply 404 False (Error ''Project not found or access denied''), s)
      | Some project \<Rightarrow>
          (reply 200 True (SummaryData (aggregate (p_id project) (expenses s))), s))"

section \<open>The service\<close>

text \<open>
  A request carries the authenticated caller. The states of the service are
  those the handlers reach from the empty store, each request handled at some
  time \<open>now\<close>.
\<close>

datatype request =
    ListProjects oid
  | CreateProject oid project_body
  | GetProject oid oid
  | UpdateProject oid oid project_body
  | DeleteProject oid oid
  | AddMember oid oid "oid option"
  | ListExpenses oid oid
  | CreateExpense oid expense_body
  | UpdateExpense oid oid expense_body
  | DeleteExpense oid oid
  | Summary oid oid

fun handle :: "date \<Rightarrow> request \<Rightarrow> db \<Rightarrow> response \<times> db" where
  "handle now (ListProjects user) s = listProjects user s"
| "handle now (CreateProject user b) s = createProject now user b s"
| "handle now (GetProject user pid) s = getProject user pid s"
| "handle now (UpdateProject user pid b) s = updateProject now user pid b s"
| "handle now (DeleteProject user pid) s = deleteProject user pid s"
| "handle now (AddMember user pid userId) s = addMember now user pid userId s"
| "handle now (ListExpenses user pid) s = listExpenses user pid s"
| "handle now (CreateExpense user b) s = createExpense now user b s"
| "handle now (UpdateExpense user eid b) s = updateExpense now user eid b s"
| "handle now (DeleteExpense user eid) s = deleteExpense user eid s"
| "handle now (Summary user pid) s = summary user pid s"

inductive reachable :: "db \<Rightarrow> bool" where
  initial: "reachable empty_db"
| step: "reachable s \<Longrightarrow> reachable (snd (handle now r s))"

section \<open>Invariants of the store\<close>

definition owner_is_member :: "db \<Rightarrow> bool" where
  "owner_is_member s = (\<forall>p\<in>set (projects s). p_createdBy p \<in> set (p_members p))"

definition amounts_valid :: "db \<Rightarrow> bool" where
  "amounts_valid s = (\<forall>e\<in>set (expenses s). 1 / 100 \<le> e_amount e)"

definition expenses_have_project :: "db \<Rightarrow> bool" where
  "expenses_have_project s = (\<forall>e\<in>set (expenses s). e_project e \<in> p_id ` set (projects s))"

text \<open>The accumulator the \<open>$group\<close> stage holds for a key, (0, 0) when it holds none.\<close>

definition acc_of :: "(string \<times> rat \<times> nat) list \<Rightarrow> string \<Rightarrow> rat \<times> nat" where
  "acc_of gs k = (case map_of gs k of None \<Rightarrow> (0, 0) | Some tn \<Rightarrow> tn)"

section \<open>An example run\<close>

text \<open>
  User 1 creates a project with a budget of 1000 and adds the users 2 and 3 as
  members; user 2 logs 200 under design, then user 1 logs 600 under marketing.
\<close>

definition demo_project :: project_body where
  "demo_project = \<lparr> pb_name = Some ''Site'', pb_description = None, pb_budget = Some (Num 1000),
                     pb_startDate = None, pb_endDate = None, pb_members = None \<rparr>"

definition demo_expense :: "rat \<Rightarrow> string \<Rightarrow> expense_body" where
  "demo_expense a c = \<lparr> eb_description = Some ''Ads'', eb_amount = Some (Num a),
                         eb_category = Some c, eb_date = None, eb_projectId = Some 0 \<rparr>"

definition demo_update :: "rat \<Rightarrow> expense_body" where
  "demo_update a = \<lparr> eb_description = None, eb_amount = Some (Num a), eb_category = None,
                      eb_date = None, eb_projectId = None \<rparr>"

definition db1 :: db where
  "db1 = snd (handle 10 (CreateProject 1 demo_project) empty_db)"

definition db2 :: db where
  "db2 = snd (handle 11 (AddMember 1 0 (Some 2)) db1)"

definition db3 :: db where
  "db3 = snd (handle 12 (AddMember 1 0 (Some 3)) db2)"

definition db4 :: db where
  "db4 = snd (handle 20 (CreateExpense 2 (demo_expense 200 ''design'')) db3)"

definition db5 :: db where
  "db5 = snd (handle 21 (CreateExpense 1 (demo_expense 600 ''marketing'')) db4)"

definition demo_site :: "oid list \<Rightarrow> date \<Rightarrow> project" where
  "demo_site ms t = \<lparr> p_id = 0, p_name = ''Site'', p_description = None, p_budget = 1000,
                       p_startDate = 10, p_endDate = None, p_createdBy = 1, p_members = ms,
                       p_createdAt = 10, p_updatedAt = t \<rparr>"

definition demo_design :: expense where
  "demo_design = \<lparr> e_id = 1, e_description = ''Ads'', e_amount = 200, e_category = ''design'',
                    e_date = 20, e_project = 0, e_createdBy = 2, e_createdAt = 20,
                    e_updatedAt = 20 \<rparr>"

definition demo_marketing :: expense where
  "demo_marketing = \<lparr> e_id = 2, e_description = ''Ads'', e_amount = 600,
                       e_category = ''marketing'', e_date = 21, e_project = 0, e_createdBy = 1,
                       e_createdAt = 21, e_updatedAt = 21 \<rparr>"

section \<open>Properties of the budget status\<close>

subsection \<open>Rounding to a double\<close>

lemma bit_length_0: "bit_length 0 = 0"
  by (simp add: bit_length.simps)

lemma bit_length_1: "bit_length 1 = 1" "bit_length (Suc 0) = Suc 0"
  by (simp_all add: bit_length.simps [of 1] bit_length.simps [of 0] bit_length.simps [of "Suc 0"])

lemma bit_length_Bit0: "bit_length (numeral (Num.Bit0 n)) = Suc (bit_length (numeral n))"
  by (subst bit_length.simps) simp

lemma bit_length_Bit1: "bit_length (numeral (Num.Bit1 n)) = Suc (bit_length (numeral n))"
  by (subst bit_length.simps) simp

lemma floor_numeral_div: "\<lfloor>numeral a / numeral b :: rat\<rfloor> = numeral a div numeral b"
  using floor_divide_of_int_eq [of "numeral a" "numeral b", where ?'a = rat] by simp

lemma floor_one_div: "\<lfloor>1 / numeral b :: rat\<rfloor> = 1 div numeral b"
  using floor_divide_of_int_eq [of 1 "numeral b", where ?'a = rat] by simp

lemmas double_eval = floor_one_div fl_def round_pos_def round_even_def ilog2_def pow2_def negate_def Let_def
  bit_length_0 bit_length_1 bit_length_Bit0 bit_length_Bit1 floor_numeral_div

lemma bit_length_bounds: "0 < n \<Longrightarrow> 2 ^ (bit_length n - 1) \<le> n \<and> n < 2 ^ bit_length n"
proof (induction n rule: bit_length.induct)
  case (1 n)
  show ?case
  proof (cases "n div 2 = 0")
    case True
    with "1.prems" have "n = 1" by (simp add: div_eq_0_iff) 
    then show ?thesis
      by (simp add: bit_length.simps [of 1] bit_length.simps [of 0] bit_length.simps [of "Suc 0"])
  next
    case False
    then have half: "0 < n div 2" by simp
    with "1.IH" "1.prems" have IH: "2 ^ (bit_length (n div 2) - 1) \<le> n div 2"
      "n div 2 < 2 ^ bit_length (n div 2)"
      by simp_all
    have len: "bit_length n = Suc (bit_length (n div 2))"
      using "1.prems" by (subst bit_length.simps) simp
    have pos: "0 < bit_length (n div 2)"
      using half by (subst bit_length.simps) simp
    from IH(1) have "2 * 2 ^ (bit_length (n div 2) - 1) \<le> n"
      by linarith
    moreover have "2 * 2 ^ (bit_length (n div 2) - 1) = (2::nat) ^ bit_length (n div 2)"
      using pos by (cases "bit_length (n div 2)") simp_all
    moreover from IH(2) have "n < 2 * 2 ^ bit_length (n div 2)"
      by linarith
    ultimately show ?thesis
      by (simp add: len)
  qed
qed

lemma pow2_powi: "pow2 k = 2 powi k"
  by (simp add: pow2_def power_int_def power_one_over inverse_eq_divide)

lemma round_even_nearest: "\<bar>of_int (round_even m) - m\<bar> \<le> 1 / 2"
proof -
  define f where "f = m - of_int \<lfloor>m\<rfloor>"
  have f: "0 \<le> f" "f < 1"
    using floor_correct [of m] by (simp_all add: f_def)
  have m: "m = of_int \<lfloor>m\<rfloor> + f"
    by (simp add: f_def)
  have "\<bar>of_int (if f < 1 / 2 then \<lfloor>m\<rfloor> else if 1 / 2 < f then \<lfloor>m\<rfloor> + 1
                  else if even \<lfloor>m\<rfloor> then \<lfloor>m\<rfloor> else \<lfloor>m\<rfloor> + 1) - (of_int \<lfloor>m\<rfloor> + f)\<bar> \<le> 1 / 2"
    using f by (auto simp: abs_if)
  then show ?thesis
    unfolding round_even_def Let_def f_def [symmetric] using m by simp
qed

lemma pow2_mono: "j \<le> k \<Longrightarrow> pow2 j \<le> pow2 k"
  by (simp add: pow2_powi power_int_increasing)

lemma pow2_add: "pow2 (j + k) = pow2 j * pow2 k"
  by (simp add: pow2_powi power_int_add)

lemma pow2_nat: "pow2 (int n) = 2 ^ n"
  by (simp add: pow2_def)

lemma pow2_minus: "pow2 (- k) = 1 / pow2 k"
  by (simp add: pow2_powi power_int_minus inverse_eq_divide)

lemma floor_bit_length:
  assumes "1 \<le> y"
  shows "pow2 (int (bit_length (nat \<lfloor>y\<rfloor>)) - 1) \<le> y \<and> y < pow2 (int (bit_length (nat \<lfloor>y\<rfloor>)))"
proof -
  let ?n = "nat \<lfloor>y\<rfloor>"
  have floor: "of_int \<lfloor>y\<rfloor> \<le> y" "y < of_int \<lfloor>y\<rfloor> + 1"
    using floor_correct [of y] by simp_all
  have "1 \<le> \<lfloor>y\<rfloor>"
    using assms by (simp add: le_floor_iff)
  then have pos: "0 < ?n" and cast: "(of_nat ?n :: rat) = of_int \<lfloor>y\<rfloor>"
    by simp_all
  have len: "0 < bit_length ?n"
    using pos by (subst bit_length.simps) simp
  note bounds = bit_length_bounds [OF pos]
  have nat: "2 ^ (bit_length ?n - 1) \<le> ?n" "Suc ?n \<le> 2 ^ bit_length ?n"
    using bounds by (blast, intro Suc_leI, blast)
  have "(of_nat (2 ^ (bit_length ?n - 1)) :: rat) \<le> of_nat ?n"
    using nat(1) by (rule of_nat_mono)
  then have lower: "(2::rat) ^ (bit_length ?n - 1) \<le> of_nat ?n"
    by (simp only: of_nat_power of_nat_numeral)
  have "(of_nat (Suc ?n) :: rat) \<le> of_nat (2 ^ bit_length ?n)"
    using nat(2) by (rule of_nat_mono)
  then have upper: "(of_nat ?n :: rat) + 1 \<le> 2 ^ bit_length ?n"
    by (simp only: of_nat_power of_nat_numeral of_nat_Suc)
  have "int (bit_length ?n) - 1 = int (bit_length ?n - 1)"
    using len by linarith
  then have low: "pow2 (int (bit_length ?n) - 1) = 2 ^ (bit_length ?n - 1)"
    by (simp only: pow2_nat)
  have high: "pow2 (int (bit_length ?n)) = 2 ^ bit_length ?n"
    by (rule pow2_nat)
  from lower floor(1) have "(2::rat) ^ (bit_length ?n - 1) \<le> y"
    unfolding cast by linarith
  moreover from upper floor(2) have "y < 2 ^ bit_length ?n"
    unfolding cast by linarith
  ultimately show ?thesis
    unfolding low high by (rule conjI)
qed

lemma ilog2_bounds:
  assumes "0 < x"
  shows "pow2 (ilog2 x) \<le> x \<and> x < pow2 (ilog2 x + 1)"
proof (cases "1 \<le> x")
  case True
  with floor_bit_length [OF True] show ?thesis
    by (simp add: ilog2_def)
next
  case False
  define k where "k = int (bit_length (nat \<lfloor>1 / x\<rfloor>)) - 1"
  from False assms have "1 \<le> 1 / x"
    by simp
  from floor_bit_length [OF this] have y: "pow2 k \<le> 1 / x" "1 / x < pow2 (k + 1)"
    by (simp_all add: k_def)
  have pos: "0 < pow2 k" "0 < pow2 (k + 1)"
    by (simp_all add: pow2_powi)
  from y(1) assms pos have upper: "x \<le> pow2 (- k)"
    by (simp add: pow2_minus field_simps)
  have "- k - 1 = - (k + 1)"
    by simp
  then have inverse: "pow2 (- k - 1) = 1 / pow2 (k + 1)"
    by (simp only: pow2_minus)
  from y(2) assms have "1 < pow2 (k + 1) * x"
    by (simp add: field_simps)
  with pos(2) have lower: "pow2 (- k - 1) < x"
    unfolding inverse by (simp add: field_simps)
  have double: "pow2 (- k + 1) = 2 * pow2 (- k)"
    using pow2_add [of "- k" 1] by (simp add: pow2_def)
  have "0 < pow2 (- k)"
    by (simp add: pow2_powi)
  with double have twice: "pow2 (- k) < pow2 (- k + 1)"
    by simp
  have exponent: "ilog2 x = (if x = pow2 (- k) then - k else - k - 1)"
    using False unfolding ilog2_def Let_def k_def by simp
  show ?thesis
  proof (cases "x = pow2 (- k)")
    case True
    then have "ilog2 x = - k"
      using exponent by simp
    with True twice show ?thesis
      by simp
  next
    case neq: False
    then have "ilog2 x = - k - 1"
      using exponent by simp
    moreover from neq upper have "x < pow2 (- k)"
      by simp
    ultimately show ?thesis
      using lower by simp
  qed
qed

lemma pow2_positive: "0 < pow2 k"
  by (simp add: pow2_def)



lemma round_pos_nearest:
  assumes "0 < x" and "round_pos x = Finite y"
  shows "\<exists>n. y = of_int n * pow2 (max (ilog2 x) (- 1022) - 52)
           \<and> \<bar>y - x\<bar> \<le> pow2 (max (ilog2 x) (- 1022) - 52) / 2"
proof -
  let ?q = "max (ilog2 x) (- 1022) - 52"
  let ?n = "round_even (x / pow2 ?q)"
  have q: "0 < pow2 ?q"
    by (rule pow2_positive)
  have y: "y = of_int ?n * pow2 ?q"
    using assms(2) by (simp add: round_pos_def Let_def split: if_splits)
  have "\<bar>of_int ?n - x / pow2 ?q\<bar> * pow2 ?q \<le> 1 / 2 * pow2 ?q"
    using round_even_nearest [of "x / pow2 ?q"] q by (intro mult_right_mono) simp_all
  moreover have "(of_int ?n - x / pow2 ?q) * pow2 ?q = of_int ?n * pow2 ?q - x"
    using q by (simp add: left_diff_distrib)
  then have "\<bar>of_int ?n - x / pow2 ?q\<bar> * pow2 ?q = \<bar>of_int ?n * pow2 ?q - x\<bar>"
    using q by (metis abs_mult abs_of_pos)
  ultimately have "\<bar>y - x\<bar> \<le> pow2 ?q / 2"
    unfolding y by simp
  with y show ?thesis
    by blast
qed

subsection \<open>The getter on doubles\<close>












text \<open>The getter on doubles has the shape of the getter on exact numbers.\<close>

lemma budgetStatus_double_shape:
  "(budgetStatus_double b te = None) = (te = None)
   \<and> amount_or_zero None = Finite 0 \<and> amount_or_zero (Some (Finite 0)) = Finite 0
   \<and> amount_or_zero (Some Not_a_Number) = Finite 0"
  by (cases te) (simp_all add: budgetStatus_double_def amount_or_zero_def falsy_d_def Let_def)

text \<open>The getter at some budgets and amounts, as the code computes them.\<close>

lemmas getter_eval = budgetStatus_double_def amount_or_zero_def falsy_d_def Math_round_d_def
  Math_min_d_def Math_max_d_def minus_d_def double_eval

lemma fl_tenths:
  "fl (1 / 10) = Finite (3602879701896397 / 36028797018963968)"
  "fl (2 / 10) = Finite (3602879701896397 / 18014398509481984)"
  "fl (3 / 10) = Finite (5404319552844595 / 18014398509481984)"
  by (simp_all add: double_eval)

lemma status_200_29:
  "budgetStatus_double (Finite 200) (Some [Some (Finite 29)]) =
     Some \<lparr> ds_totalSpent = Finite 29, ds_percentage = Finite 14, ds_remaining = Finite 171,
            ds_isOverBudget = False \<rparr>"
  by (simp add: getter_eval)

lemma quotient_200_29:
  "times_d (divide_d (Finite 29) (Finite 200)) (Finite 100)
     = Finite (8162774324609023 / 562949953421312)"
  by (simp add: double_eval)

lemma status_tenths:
  "budgetStatus_double (fl (3 / 10)) (Some [Some (fl (1 / 10)), Some (fl (2 / 10))]) =
     Some \<lparr> ds_totalSpent = Finite (1351079888211149 / 4503599627370496),
            ds_percentage = Finite 100, ds_remaining = Finite 0, ds_isOverBudget = True \<rparr>"
  unfolding fl_tenths by (simp add: getter_eval)


lemma status_1000_200_300:
  "budgetStatus_double (Finite 1000) (Some [Some (Finite 200), Some (Finite 300)]) =
     Some \<lparr> ds_totalSpent = Finite 500, ds_percentage = Finite 50, ds_remaining = Finite 500,
            ds_isOverBudget = False \<rparr>"
  by (simp add: getter_eval)

lemma status_3_2:
  "budgetStatus_double (Finite 3) (Some [Some (Finite 2)]) =
     Some \<lparr> ds_totalSpent = Finite 2, ds_percentage = Finite 67, ds_remaining = Finite 1,
            ds_isOverBudget = False \<rparr>"
  by (simp add: getter_eval)

lemma status_8_1:
  "budgetStatus_double (Finite 8) (Some [Some (Finite 1)]) =
     Some \<lparr> ds_totalSpent = Finite 1, ds_percentage = Finite 13, ds_remaining = Finite 7,
            ds_isOverBudget = False \<rparr>"
  by (simp add: getter_eval)

lemma status_infinite_budget:
  "budgetStatus_double Infinity (Some [Some (Finite 600)]) =
     Some \<lparr> ds_totalSpent = Finite 600, ds_percentage = Finite 0, ds_remaining = Infinity,
            ds_isOverBudget = False \<rparr>"
  by (simp add: getter_eval)

lemma status_infinite_amount:
  "budgetStatus_double (Finite 1000) (Some [Some Infinity]) =
     Some \<lparr> ds_totalSpent = Infinity, ds_percentage = Finite 100, ds_remaining = Finite 0,
            ds_isOverBudget = True \<rparr>"
  by (simp add: getter_eval)

lemma status_infinite_both:
  "budgetStatus_double Infinity (Some [Some Infinity]) =
     Some \<lparr> ds_totalSpent = Infinity, ds_percentage = Not_a_Number,
            ds_remaining = Not_a_Number, ds_isOverBudget = False \<rparr>"
  by (simp add: getter_eval)

lemma status_no_budget:
  "budgetStatus_double (Finite 0) (Some [Some (Finite 5)]) =
     Some \<lparr> ds_totalSpent = Finite 5, ds_percentage = Finite 0, ds_remaining = Finite 0,
            ds_isOverBudget = False \<rparr>"
  by (simp add: getter_eval)



subsection \<open>The shape of the budget status\<close>



section \<open>Queries on the first match\<close>

lemma find_NoneD: "find P xs = None \<Longrightarrow> x \<in> set xs \<Longrightarrow> \<not> P x"
  by (simp add: find_None_iff)

lemma find_SomeD: "find P xs = Some x \<Longrightarrow> P x \<and> x \<in> set xs"
  by (auto simp: find_Some_iff)

lemma find_exists: "x \<in> set xs \<Longrightarrow> P x \<Longrightarrow> \<exists>y. find P xs = Some y"
  by (cases "find P xs") (auto simp: find_None_iff)

lemma update_first_find:
  "find P xs = Some x \<Longrightarrow> (\<And>y. P (f y) = P y) \<Longrightarrow> find P (update_first P f xs) = Some (f x)"
  by (induction xs) (auto split: if_splits)

lemma set_update_first:
  "x \<in> set (update_first P f xs) \<Longrightarrow> x \<in> set xs \<or> (\<exists>y\<in>set xs. P y \<and> x = f y)"
  by (induction xs) (auto split: if_splits)

lemma update_first_image: "(\<And>x. g (f x) = g x) \<Longrightarrow> g ` set (update_first P f xs) = g ` set xs"
  by (induction xs) auto

lemma set_delete_first: "set (delete_first P xs) \<subseteq> set xs"
  by (induction xs) auto

lemma delete_first_keeps: "x \<in> set xs \<Longrightarrow> \<not> P x \<Longrightarrow> x \<in> set (delete_first P xs)"
  by (induction xs) auto

section \<open>The example run, evaluated\<close>

lemma date_or_None [simp]: "date_or None now = now"
  by (simp add: date_or_def)

lemma trim_demo: "trim ''Site'' = ''Site''" "trim ''Ads'' = ''Ads''"
  by (simp_all add: trim_def is_space_def)

lemma categories_demo: "''design'' \<in> set categories" "''marketing'' \<in> set categories"
  by (simp_all add: categories_def)

lemma db1_eq: "db1 = \<lparr> projects = [demo_site [1] 10], expenses = [], next_id = 1 \<rparr>"
  by (simp add: db1_def createProject_def demo_project_def demo_site_def empty_db_def falsy_def
      trim_demo project_name_valid_def project_budget_valid_def Let_def)

lemma db2_eq: "db2 = \<lparr> projects = [demo_site [1, 2] 11], expenses = [], next_id = 1 \<rparr>"
  by (simp add: db2_def db1_eq addMember_def addToSet_def demo_site_def Let_def)

lemma db3_eq: "db3 = \<lparr> projects = [demo_site [1, 2, 3] 12], expenses = [], next_id = 1 \<rparr>"
  by (simp add: db3_def db2_eq addMember_def addToSet_def demo_site_def Let_def)

lemma db4_eq:
  "db4 = \<lparr> projects = [demo_site [1, 2, 3] 20], expenses = [demo_design], next_id = 2 \<rparr>"
  by (simp add: db4_def db3_eq createExpense_def demo_expense_def demo_design_def demo_site_def
      falsy_def trim_demo has_access_def expense_description_valid_def expense_amount_valid_def
      expense_category_valid_def categories_demo pre_save_def Let_def)

lemma db5_eq:
  "db5 = \<lparr> projects = [demo_site [1, 2, 3] 21], expenses = [demo_design, demo_marketing],
           next_id = 3 \<rparr>"
  by (simp add: db5_def db4_eq createExpense_def demo_expense_def demo_marketing_def demo_site_def
      falsy_def trim_demo has_access_def expense_description_valid_def expense_amount_valid_def
      expense_category_valid_def categories_demo pre_save_def Let_def)

lemma reachable_db5: "reachable db5"
  unfolding db5_def db4_def db3_def db2_def db1_def
  by (intro reachable.step reachable.initial)

text \<open>
  A project read through \<open>GET /:id\<close> carries a populated budget status; the one
  returned by \<open>POST /\<close> has not been populated and carries null.
\<close>

lemma getProject_db5:
  "fst (getProject 2 0 db5) =
     reply 200 True (ProjectData (demo_site [1, 2, 3] 21)
       (Some \<lparr> totalSpent = 800, percentage = 80, remaining = 200, isOverBudget = False \<rparr>))"
proof -
  have "\<lfloor>161 / 2 :: rat\<rfloor> = 80"
    by (simp add: floor_eq_iff)
  then show ?thesis
    by (simp add: getProject_def db5_eq demo_site_def demo_design_def demo_marketing_def
        has_access_def populate_totalExpenses_def budgetStatus_def amount_or_0_def Math_round_def
        Let_def)
qed

lemma createProject_unpopulated:
  "fst (createProject 10 1 demo_project empty_db) =
     reply 201 True (ProjectData (demo_site [1] 10) None)"
  by (simp add: createProject_def demo_project_def demo_site_def empty_db_def falsy_def
      trim_demo project_name_valid_def project_budget_valid_def budgetStatus_def Let_def)

section \<open>The owner is a member\<close>

lemma createProject_owner: "owner_is_member s \<Longrightarrow> owner_is_member (snd (createProject now user b s))"
  by (auto simp: owner_is_member_def createProject_def Let_def split: option.splits number.splits)

lemma updateProject_owner:
  assumes "owner_is_member s"
  shows "owner_is_member (snd (updateProject now user pid b s))"
proof -
  let ?u = "b\<lparr> pb_members := (case pb_members b of None \<Rightarrow> None
                 | Some members \<Rightarrow> Some (members @ [user])) \<rparr>"
  have kept: "p_createdBy (set_project ?u now y) \<in> set (p_members (set_project ?u now y))"
    if "p_createdBy y = user" "p_createdBy y \<in> set (p_members y)" for y
    using that by (cases "pb_members b") (simp_all add: set_project_def)
  have "p_createdBy x \<in> set (p_members x)"
    if "x \<in> set (update_first (\<lambda>p. p_id p = pid \<and> p_createdBy p = user)
                    (set_project ?u now) (projects s))" for x
    using set_update_first [OF that] assms kept
    by (auto simp: owner_is_member_def)
  then show ?thesis
    using assms
    by (auto simp: updateProject_def Let_def owner_is_member_def split: option.splits)
qed

lemma deleteProject_owner: "owner_is_member s \<Longrightarrow> owner_is_member (snd (deleteProject user pid s))"
  using set_delete_first
  by (fastforce simp: owner_is_member_def deleteProject_def split: option.splits)

lemma addMember_owner:
  assumes "owner_is_member s"
  shows "owner_is_member (snd (addMember now user pid userId s))"
proof -
  have "p_createdBy x \<in> set (p_members x)"
    if "x \<in> set (update_first P
                    (\<lambda>p. p\<lparr> p_members := addToSet m (p_members p), p_updatedAt := now \<rparr>)
                    (projects s))" for x P m
    using set_update_first [OF that] assms
    by (auto simp: owner_is_member_def addToSet_def)
  then show ?thesis
    using assms
    by (auto simp: addMember_def Let_def owner_is_member_def split: option.splits)
qed

lemma createExpense_owner: "owner_is_member s \<Longrightarrow> owner_is_member (snd (createExpense now user b s))"
proof -
  assume inv: "owner_is_member s"
  have "p_createdBy x \<in> set (p_members x)" if "x \<in> set (pre_save now pid (projects s))" for x pid
    using set_update_first [OF that [unfolded pre_save_def]] inv
    by (auto simp: owner_is_member_def)
  then show ?thesis
    using inv
    by (auto simp: createExpense_def Let_def owner_is_member_def split: option.splits number.splits)
qed

lemma updateExpense_projects: "projects (snd (updateExpense now user eid b s)) = projects s"
  by (simp add: updateExpense_def split: option.splits permission.splits)

lemma deleteExpense_projects: "projects (snd (deleteExpense user eid s)) = projects s"
  by (simp add: deleteExpense_def split: option.splits permission.splits)

lemma handle_owner: "owner_is_member s \<Longrightarrow> owner_is_member (snd (handle now r s))"
proof (cases r)
  case (UpdateExpense user eid b)
  then show "owner_is_member s \<Longrightarrow> ?thesis"
    by (simp add: owner_is_member_def updateExpense_projects)
next
  case (DeleteExpense user eid)
  then show "owner_is_member s \<Longrightarrow> ?thesis"
    by (simp add: owner_is_member_def deleteExpense_projects)
qed (simp_all add: createProject_owner updateProject_owner deleteProject_owner addMember_owner
       createExpense_owner getProject_def summary_def listProjects_def listExpenses_def
       split: option.splits)

lemma reachable_owner: "reachable s \<Longrightarrow> owner_is_member s"
proof (induction rule: reachable.induct)
  case initial
  show ?case by (simp add: owner_is_member_def empty_db_def)
next
  case (step s now r)
  then show ?case by (simp add: handle_owner)
qed

lemma createProject_members:
  assumes "status (fst (createProject now user b s)) = 201"
  shows "\<exists>project. projects (snd (createProject now user b s)) = projects s @ [project]
           \<and> p_createdBy project = user \<and> p_members project = [user]"
  using assms
  by (auto simp: createProject_def reply_def Let_def split: option.splits number.splits if_splits)

lemma updateProject_members:
  assumes "fst (updateProject now user pid b s) = reply 200 True (ProjectData q' st)"
  shows "find (\<lambda>p. p_id p = pid \<and> p_createdBy p = user) (projects (snd (updateProject now user pid b s)))
           = Some q'
         \<and> p_createdBy q' = user
         \<and> (\<forall>ms. pb_members b = Some ms \<longrightarrow> set (p_members q') = insert user (set ms))"
proof -
  let ?P = "\<lambda>p. p_id p = pid \<and> p_createdBy p = user"
  let ?u = "b\<lparr> pb_members := (case pb_members b of None \<Rightarrow> None
                 | Some members \<Rightarrow> Some (members @ [user])) \<rparr>"
  from assms obtain q where q: "find ?P (projects s) = Some q"
    by (cases "find ?P (projects s)")
       (auto simp: updateProject_def reply_def Let_def split: if_splits)
  with assms have valid: "project_updates_valid ?u"
    by (auto simp: updateProject_def reply_def Let_def split: if_splits)
  have q': "q' = set_project ?u now q"
    using assms q valid by (simp add: updateProject_def reply_def Let_def)
  have stored: "projects (snd (updateProject now user pid b s))
                  = update_first ?P (set_project ?u now) (projects s)"
    using q valid by (simp add: updateProject_def Let_def)
  have "find ?P (update_first ?P (set_project ?u now) (projects s)) = Some (set_project ?u now q)"
    using q by (rule update_first_find) (simp add: set_project_def)
  moreover have "p_createdBy q = user"
    using q by (auto dest: find_SomeD)
  ultimately show ?thesis
    using q' stored by (auto simp: set_project_def)
qed

lemma list_all2_update_first:
  assumes "\<And>x. R x x" and "\<And>x. P x \<Longrightarrow> R x (f x)"
  shows "list_all2 R xs (update_first P f xs)"
  using assms by (induction xs) (auto simp: list_all2_refl)

lemma addMember_members:
  "list_all2 (\<lambda>p p'. p_id p' = p_id p \<and> p_createdBy p' = p_createdBy p
                     \<and> set (p_members p) \<subseteq> set (p_members p'))
     (projects t) (projects (snd (addMember now user pid userId t)))"
proof -
  let ?R = "\<lambda>p p'. p_id p' = p_id p \<and> p_createdBy p' = p_createdBy p
                     \<and> set (p_members p) \<subseteq> set (p_members p')"
  have same: "list_all2 ?R (projects t) (projects t)"
    by (simp add: list_all2_refl)
  have "list_all2 ?R (projects t)
          (update_first P (\<lambda>p. p\<lparr> p_members := addToSet m (p_members p), p_updatedAt := now \<rparr>)
             (projects t))" for P m
    by (rule list_all2_update_first) (auto simp: addToSet_def)
  with same show ?thesis
    by (simp add: addMember_def Let_def split: option.splits)
qed

text \<open>
  C2. In every state the handlers reach from the empty store, the creator of
  each project is among its members. Creating a project makes the creator its
  only member; an update by the owner that supplies a members list stores that
  list with the owner included; adding a member changes no owner and removes
  no member.
\<close>

theorem owner_always_member:
  "(reachable s \<and> p \<in> set (projects s) \<longrightarrow> p_createdBy p \<in> set (p_members p))
   \<and> (status (fst (createProject now user b t)) = 201 \<longrightarrow>
        (\<exists>project. projects (snd (createProject now user b t)) = projects t @ [project]
           \<and> p_createdBy project = user \<and> p_members project = [user]))
   \<and> (fst (updateProject now user pid b t) = reply 200 True (ProjectData q' st) \<longrightarrow>
        find (\<lambda>p. p_id p = pid \<and> p_createdBy p = user)
            (projects (snd (updateProject now user pid b t))) = Some q'
        \<and> p_createdBy q' = user
        \<and> (\<forall>ms. pb_members b = Some ms \<longrightarrow> set (p_members q') = insert user (set ms)))
   \<and> list_all2 (\<lambda>p p'. p_id p' = p_id p \<and> p_createdBy p' = p_createdBy p
                       \<and> set (p_members p) \<subseteq> set (p_members p'))
        (projects t) (projects (snd (addMember now user pid userId t)))"
proof -
  have "p_createdBy p \<in> set (p_members p)" if "reachable s" "p \<in> set (projects s)"
    using reachable_owner [OF that(1)] that(2) by (simp add: owner_is_member_def)
  then show ?thesis
    using createProject_members [of now user b t] updateProject_members [of now user pid b t q' st]
      addMember_members [of t now user pid userId]
    by blast
qed

lemma updateProject_db5:
  "fst (updateProject 30 1 0 (demo_project\<lparr> pb_members := Some [2] \<rparr>) db5)
     = reply 200 True (ProjectData (demo_site [2, 1] 30) None)"
  by (simp add: updateProject_def demo_project_def db5_eq demo_site_def project_updates_valid_def
      project_name_valid_def project_budget_valid_def trim_demo set_project_def budgetStatus_def
      Let_def)

theorem owner_always_member_witness:
  "reachable db5 \<and> demo_site [1, 2, 3] 21 \<in> set (projects db5)
   \<and> p_createdBy (demo_site [1, 2, 3] 21) \<in> set (p_members (demo_site [1, 2, 3] 21))
   \<and> status (fst (createProject 10 1 demo_project empty_db)) = 201
   \<and> fst (updateProject 30 1 0 (demo_project\<lparr> pb_members := Some [2] \<rparr>) db5)
       = reply 200 True (ProjectData (demo_site [2, 1] 30) None)
   \<and> p_createdBy (demo_site [2, 1] 30) = 1
   \<and> set (p_members (demo_site [2, 1] 30)) = insert 1 (set [2])"
proof -
  have member: "demo_site [1, 2, 3] 21 \<in> set (projects db5)"
    by (simp add: db5_eq)
  have created: "status (fst (createProject 10 1 demo_project empty_db)) = 201"
    using createProject_unpopulated by (simp add: reply_def)
  have body: "pb_members (demo_project\<lparr> pb_members := Some [2] \<rparr>) = Some [2]"
    by simp
  show ?thesis
    using owner_always_member [where s = db5 and p = "demo_site [1, 2, 3] 21" and now = 10
        and user = 1 and b = demo_project and t = empty_db]
      owner_always_member [where now = 30 and user = 1 and pid = 0
        and b = "demo_project\<lparr> pb_members := Some [2] \<rparr>" and t = db5
        and q' = "demo_site [2, 1] 30" and st = None]
      reachable_db5 member created updateProject_db5 body
    by (simp add: demo_site_def)
qed

section \<open>Deleting a project\<close>

text \<open>
  C3. \<open>deleteProject\<close> answers \<open>{deleted: true}\<close> exactly when the store holds a
  project with the given id that the caller created; it then removes that
  project, and no expense that refers to the id is left. Any other call
  answers 404 and changes nothing.
\<close>

theorem deleteProject_cascade:
  "(fst (deleteProject user pid s) = reply 200 True Deleted)
     = (\<exists>p\<in>set (projects s). p_id p = pid \<and> p_createdBy p = user)
   \<and> (fst (deleteProject user pid s) = reply 200 True Deleted \<longrightarrow>
        length (filter (\<lambda>e. e_project e = pid) (expenses (snd (deleteProject user pid s)))) = 0
        \<and> expenses (snd (deleteProject user pid s))
            = filter (\<lambda>e. e_project e \<noteq> pid) (expenses s)
        \<and> projects (snd (deleteProject user pid s))
            = delete_first (\<lambda>p. p_id p = pid \<and> p_createdBy p = user) (projects s))
   \<and> (fst (deleteProject user pid s) \<noteq> reply 200 True Deleted \<longrightarrow>
        deleteProject user pid s
          = (reply 404 False (Error ''Project not found or not authorized''), s))"
proof (cases "find (\<lambda>p. p_id p = pid \<and> p_createdBy p = user) (projects s)")
  case None
  then have "\<not> (\<exists>p\<in>set (projects s). p_id p = pid \<and> p_createdBy p = user)"
    by (auto dest: find_NoneD)
  with None show ?thesis
    by (simp add: deleteProject_def reply_def)
next
  case (Some p)
  then have p: "p_id p = pid" "p_createdBy p = user" "p \<in> set (projects s)"
    by (auto dest: find_SomeD)
  then have "\<exists>p\<in>set (projects s). p_id p = pid \<and> p_createdBy p = user"
    by blast
  with Some p show ?thesis
    by (simp add: deleteProject_def reply_def)
qed

theorem deleteProject_cascade_witness:
  "fst (deleteProject 1 0 db5) = reply 200 True Deleted
   \<and> length (filter (\<lambda>e. e_project e = 0) (expenses db5)) = 2
   \<and> length (filter (\<lambda>e. e_project e = 0) (expenses (snd (deleteProject 1 0 db5)))) = 0
   \<and> projects (snd (deleteProject 1 0 db5)) = []
   \<and> deleteProject 2 0 db5
       = (reply 404 False (Error ''Project not found or not authorized''), db5)"
proof -
  have owner: "\<exists>p\<in>set (projects db5). p_id p = 0 \<and> p_createdBy p = 1"
    by (simp add: db5_eq demo_site_def)
  have other: "\<not> (\<exists>p\<in>set (projects db5). p_id p = 0 \<and> p_createdBy p = 2)"
    by (simp add: db5_eq demo_site_def)
  have before: "length (filter (\<lambda>e. e_project e = 0) (expenses db5)) = 2"
    by (simp add: db5_eq demo_design_def demo_marketing_def)
  have removed: "delete_first (\<lambda>p. p_id p = 0 \<and> p_createdBy p = 1) (projects db5) = []"
    by (simp add: db5_eq demo_site_def)
  from deleteProject_cascade [of 1 0 db5] owner
  have ok: "fst (deleteProject 1 0 db5) = reply 200 True Deleted"
    by blast
  with deleteProject_cascade [of 1 0 db5]
  have gone: "length (filter (\<lambda>e. e_project e = 0) (expenses (snd (deleteProject 1 0 db5)))) = 0"
    and left: "projects (snd (deleteProject 1 0 db5))
                 = delete_first (\<lambda>p. p_id p = 0 \<and> p_createdBy p = 1) (projects db5)"
    by blast+
  from deleteProject_cascade [of 2 0 db5] other
  have refused: "deleteProject 2 0 db5
       = (reply 404 False (Error ''Project not found or not authorized''), db5)"
    by blast
  show ?thesis
    using ok before gone left removed refused by simp
qed

section \<open>Rejected requests\<close>

text \<open>
  C4, as the code has it. \<open>createProject\<close> answers 400 when the name is empty or
  the budget is missing. A negative budget passes that check and is rejected
  by the validator of the schema when the document is saved: the handler
  answers 500. In both cases the store is unchanged.
\<close>

theorem createProject_rejects:
  "(falsy (pb_name b) \<or> pb_budget b = None \<longrightarrow>
      createProject now user b s = (reply 400 False (Error ''Name and budget are required''), s))
   \<and> (\<not> falsy (pb_name b) \<and> pb_budget b = Some (Num x) \<and> x < 0 \<longrightarrow>
      createProject now user b s = (reply 500 False (Error ''Failed to create project''), s))"
  by (auto simp: createProject_def project_budget_valid_def falsy_def split: option.splits)

theorem createProject_rejects_witness:
  "falsy (pb_name (demo_project\<lparr> pb_name := Some [] \<rparr>))
   \<and> createProject 10 1 (demo_project\<lparr> pb_name := Some [] \<rparr>) empty_db
       = (reply 400 False (Error ''Name and budget are required''), empty_db)
   \<and> pb_budget (demo_project\<lparr> pb_budget := None \<rparr>) = None
   \<and> createProject 10 1 (demo_project\<lparr> pb_budget := None \<rparr>) empty_db
       = (reply 400 False (Error ''Name and budget are required''), empty_db)
   \<and> \<not> falsy (pb_name (demo_project\<lparr> pb_budget := Some (Num (- 5)) \<rparr>))
   \<and> createProject 10 1 (demo_project\<lparr> pb_budget := Some (Num (- 5)) \<rparr>) empty_db
       = (reply 500 False (Error ''Failed to create project''), empty_db)"
  using createProject_rejects [where b = "demo_project\<lparr> pb_name := Some [] \<rparr>" and now = 10
      and user = 1 and s = empty_db]
    createProject_rejects [where b = "demo_project\<lparr> pb_budget := None \<rparr>" and now = 10
      and user = 1 and s = empty_db]
    createProject_rejects [where b = "demo_project\<lparr> pb_budget := Some (Num (- 5)) \<rparr>"
      and x = "- 5" and now = 10 and user = 1 and s = empty_db]
  by (simp add: falsy_def demo_project_def)

theorem createProject_negative_budget_counterexample:
  "status (fst (createProject 10 1 (demo_project\<lparr> pb_budget := Some (Num (- 5)) \<rparr>) empty_db)) = 500
   \<and> status (fst (createProject 10 1 (demo_project\<lparr> pb_budget := Some (Num (- 5)) \<rparr>) empty_db))
       \<noteq> 400"
  by (simp add: createProject_def demo_project_def falsy_def trim_demo project_name_valid_def
      project_budget_valid_def reply_def)

text \<open>
  C5, as the code has it. \<open>createExpense\<close> answers 400 when the description, the
  amount or the category is missing. When all fields are present and the caller
  has access to the project, an amount below 0.01 (so every amount \<open>\<le> 0\<close>) and a
  category outside the enumeration are rejected by the validators of the schema
  when the document is saved: the handler answers 500. In both cases the store
  is unchanged.
\<close>

theorem createExpense_rejects:
  "(falsy (eb_description b) \<or> eb_amount b = None \<or> falsy (eb_category b) \<longrightarrow>
      createExpense now user b s =
        (reply 400 False (Error ''Description, amount, category, and project ID are required''), s))
   \<and> (\<not> falsy (eb_description b) \<and> \<not> falsy (eb_category b)
        \<and> eb_amount b = Some (Num a) \<and> eb_category b = Some c \<and> eb_projectId b = Some pid
        \<and> find (\<lambda>p. p_id p = pid \<and> has_access user p) (projects s) = Some p
        \<and> (a < 1 / 100 \<or> c \<notin> set categories) \<longrightarrow>
      createExpense now user b s = (reply 500 False (Error ''Failed to create expense''), s))"
  by (auto simp: createExpense_def falsy_def expense_amount_valid_def expense_category_valid_def
           split: option.splits)

lemma access_db3: "find (\<lambda>p. p_id p = 0 \<and> has_access 2 p) (projects db3) = Some (demo_site [1, 2, 3] 12)"
  by (simp add: db3_eq demo_site_def has_access_def)

theorem createExpense_rejects_witness:
  "falsy (eb_category ((demo_expense 200 ''design'')\<lparr> eb_category := None \<rparr>))
   \<and> createExpense 20 2 ((demo_expense 200 ''design'')\<lparr> eb_category := None \<rparr>) db3
       = (reply 400 False
           (Error ''Description, amount, category, and project ID are required''), db3)
   \<and> find (\<lambda>p. p_id p = 0 \<and> has_access 2 p) (projects db3) = Some (demo_site [1, 2, 3] 12)
   \<and> (0 :: rat) < 1 / 100
   \<and> createExpense 20 2 (demo_expense 0 ''design'') db3
       = (reply 500 False (Error ''Failed to create expense''), db3)
   \<and> ''travel'' \<notin> set categories
   \<and> createExpense 20 2 (demo_expense 200 ''travel'') db3
       = (reply 500 False (Error ''Failed to create expense''), db3)"
  using createExpense_rejects [where b = "(demo_expense 200 ''design'')\<lparr> eb_category := None \<rparr>"
      and now = 20 and user = 2 and s = db3]
    createExpense_rejects [where b = "demo_expense 0 ''design''" and a = 0 and c = "''design''"
      and pid = 0 and user = 2 and s = db3 and p = "demo_site [1, 2, 3] 12" and now = 20]
    createExpense_rejects [where b = "demo_expense 200 ''travel''" and a = 200 and c = "''travel''"
      and pid = 0 and user = 2 and s = db3 and p = "demo_site [1, 2, 3] 12" and now = 20]
    access_db3
  by (simp add: falsy_def demo_expense_def categories_def)

theorem createExpense_invalid_amount_counterexample:
  "status (fst (createExpense 20 2 (demo_expense (- 1) ''design'') db3)) = 500
   \<and> status (fst (createExpense 20 2 (demo_expense (- 1) ''design'') db3)) \<noteq> 400
   \<and> status (fst (createExpense 20 2 (demo_expense 200 ''travel'') db3)) = 500"
  using access_db3
  by (simp add: createExpense_def demo_expense_def falsy_def trim_demo
      expense_description_valid_def expense_amount_valid_def expense_category_valid_def
      categories_def reply_def)

section \<open>Expenses and the project's \<open>updatedAt\<close>\<close>

text \<open>
  C6. When \<open>createExpense\<close> succeeds on the project with id \<open>pid\<close> at time \<open>now\<close>,
  that project is afterwards the same document with \<open>updatedAt\<close> set to \<open>now\<close>;
  so \<open>updatedAt\<close> advances whenever the clock has.
\<close>

theorem createExpense_touches_project:
  assumes "status (fst (createExpense now user b s)) = 201"
    and "eb_projectId b = Some pid"
  shows "\<exists>p. find (\<lambda>p. p_id p = pid) (projects s) = Some p
           \<and> find (\<lambda>p. p_id p = pid) (projects (snd (createExpense now user b s)))
               = Some (p\<lparr> p_updatedAt := now \<rparr>)
           \<and> p_updatedAt (p\<lparr> p_updatedAt := now \<rparr>) = now
           \<and> (p_updatedAt p < now \<longrightarrow> p_updatedAt p < p_updatedAt (p\<lparr> p_updatedAt := now \<rparr>))"
proof -
  from assms obtain q where q: "find (\<lambda>p. p_id p = pid \<and> has_access user p) (projects s) = Some q"
    by (cases "find (\<lambda>p. p_id p = pid \<and> has_access user p) (projects s)")
       (auto simp: createExpense_def reply_def split: option.splits if_splits number.splits)
  then have "q \<in> set (projects s)" "p_id q = pid"
    by (auto dest: find_SomeD)
  then obtain p where p: "find (\<lambda>p. p_id p = pid) (projects s) = Some p"
    using find_exists [of q "projects s" "\<lambda>p. p_id p = pid"] by blast
  have touched: "projects (snd (createExpense now user b s)) = pre_save now pid (projects s)"
    using assms q
    by (auto simp: createExpense_def reply_def Let_def split: option.splits if_splits number.splits)
  have "find (\<lambda>p. p_id p = pid) (pre_save now pid (projects s)) = Some (p\<lparr> p_updatedAt := now \<rparr>)"
    unfolding pre_save_def using p by (rule update_first_find) simp
  with p touched show ?thesis
    by simp
qed

lemma createExpense_db4:
  "createExpense 21 1 (demo_expense 600 ''marketing'') db4
     = (reply 201 True (ExpenseData demo_marketing), db5)"
  by (simp add: db5_eq db4_eq createExpense_def demo_expense_def demo_marketing_def demo_site_def
      falsy_def trim_demo has_access_def expense_description_valid_def expense_amount_valid_def
      expense_category_valid_def categories_demo pre_save_def Let_def)

theorem createExpense_touches_project_witness:
  "status (fst (createExpense 21 1 (demo_expense 600 ''marketing'') db4)) = 201
   \<and> eb_projectId (demo_expense 600 ''marketing'') = Some 0
   \<and> find (\<lambda>p. p_id p = 0) (projects db4) = Some (demo_site [1, 2, 3] 20)
   \<and> find (\<lambda>p. p_id p = 0) (projects (snd (createExpense 21 1 (demo_expense 600 ''marketing'') db4)))
       = Some (demo_site [1, 2, 3] 21)
   \<and> p_updatedAt (demo_site [1, 2, 3] 20) < p_updatedAt (demo_site [1, 2, 3] 21)"
proof -
  have created: "status (fst (createExpense 21 1 (demo_expense 600 ''marketing'') db4)) = 201"
    using createExpense_db4 by (simp add: reply_def)
  have target: "eb_projectId (demo_expense 600 ''marketing'') = Some 0"
    by (simp add: demo_expense_def)
  have before: "find (\<lambda>p. p_id p = 0) (projects db4) = Some (demo_site [1, 2, 3] 20)"
    by (simp add: db4_eq demo_site_def)
  show ?thesis
    using createExpense_touches_project [OF created target] created target before
    by (auto simp: demo_site_def)
qed

text \<open>
  C7, as the code has it. \<open>deleteExpense\<close> changes no project at all: every
  field of every project, \<open>updatedAt\<close> included, is what it was. On success the
  first expense with the given id is removed. Only the creation of an expense
  sets \<open>updatedAt\<close> of the project.
\<close>

theorem deleteExpense_leaves_projects:
  "projects (snd (deleteExpense user eid s)) = projects s
   \<and> (status (fst (deleteExpense user eid s)) = 200 \<longrightarrow>
        fst (deleteExpense user eid s) = reply 200 True Deleted
        \<and> expenses (snd (deleteExpense user eid s)) = delete_first (\<lambda>e. e_id e = eid) (expenses s))"
  by (simp add: deleteExpense_def reply_def split: option.splits permission.splits)

lemma deleteExpense_db5:
  "deleteExpense 2 1 db5
     = (reply 200 True Deleted,
        \<lparr> projects = [demo_site [1, 2, 3] 21], expenses = [demo_marketing], next_id = 3 \<rparr>)"
  by (simp add: deleteExpense_def db5_eq demo_design_def demo_marketing_def demo_site_def
      check_permission_def)

theorem deleteExpense_leaves_projects_witness:
  "status (fst (deleteExpense 2 1 db5)) = 200
   \<and> projects (snd (deleteExpense 2 1 db5)) = projects db5
   \<and> expenses (snd (deleteExpense 2 1 db5)) = [demo_marketing]"
proof -
  have deleted: "status (fst (deleteExpense 2 1 db5)) = 200"
    using deleteExpense_db5 by (simp add: reply_def)
  have rest: "delete_first (\<lambda>e. e_id e = 1) (expenses db5) = [demo_marketing]"
    by (simp add: db5_eq demo_design_def)
  show ?thesis
    using deleteExpense_leaves_projects [of 2 1 db5] deleted rest by simp
qed

theorem deleteExpense_no_touch_counterexample:
  "status (fst (handle 30 (DeleteExpense 2 1) db5)) = 200
   \<and> map p_updatedAt (projects db5) = [21]
   \<and> map p_updatedAt (projects (snd (handle 30 (DeleteExpense 2 1) db5))) = [21]
   \<and> map p_updatedAt (projects (snd (handle 30 (DeleteExpense 2 1) db5))) \<noteq> [30]"
  using deleteExpense_db5 by (simp add: reply_def db5_eq demo_site_def)

section \<open>Who may update or delete an expense\<close>

text \<open>
  C8, as the code has it. For an expense that does not exist both handlers
  answer 404. For an expense whose project exists: a caller who is neither the
  creator of the expense nor the owner of its project gets 403 from both and
  nothing changes; a caller who is one of the two always succeeds in deleting,
  and succeeds in updating exactly when the supplied fields pass the validators
  of the schema; otherwise the update answers 500 and nothing changes.
\<close>

theorem expense_authorization:
  "(find (\<lambda>e. e_id e = eid) (expenses s) = None \<longrightarrow>
      deleteExpense user eid s = (reply 404 False (Error ''Expense not found''), s)
      \<and> updateExpense now user eid b s = (reply 404 False (Error ''Expense not found''), s))
   \<and> (find (\<lambda>e. e_id e = eid) (expenses s) = Some e
       \<and> find (\<lambda>p. p_id p = e_project e) (projects s) = Some p \<longrightarrow>
        (e_createdBy e = user \<or> p_createdBy p = user \<longrightarrow>
           fst (deleteExpense user eid s) = reply 200 True Deleted
           \<and> (expense_updates_valid b \<longrightarrow>
                 fst (updateExpense now user eid b s)
                   = reply 200 True (ExpenseData (set_expense b now e)))
           \<and> (\<not> expense_updates_valid b \<longrightarrow>
                 updateExpense now user eid b s
                   = (reply 500 False (Error ''Failed to update expense''), s)))
        \<and> (\<not> (e_createdBy e = user \<or> p_createdBy p = user) \<longrightarrow>
           deleteExpense user eid s
             = (reply 403 False (Error ''Not authorized to delete this expense''), s)
           \<and> updateExpense now user eid b s
             = (reply 403 False (Error ''Not authorized to update this expense''), s)))"
  by (simp add: deleteExpense_def updateExpense_def check_permission_def)

lemma find_db5:
  "find (\<lambda>e. e_id e = 1) (expenses db5) = Some demo_design"
  "find (\<lambda>p. p_id p = e_project demo_design) (projects db5) = Some (demo_site [1, 2, 3] 21)"
  "find (\<lambda>e. e_id e = 7) (expenses db5) = None"
  by (simp_all add: db5_eq demo_design_def demo_marketing_def demo_site_def)

theorem expense_authorization_witness:
  "e_createdBy demo_design = 2 \<and> p_createdBy (demo_site [1, 2, 3] 21) = 1
   \<and> 3 \<in> set (p_members (demo_site [1, 2, 3] 21))
   \<and> fst (updateExpense 30 2 1 (demo_update 250) db5)
       = reply 200 True (ExpenseData (demo_design\<lparr> e_amount := 250, e_updatedAt := 30 \<rparr>))
   \<and> fst (deleteExpense 1 1 db5) = reply 200 True Deleted
   \<and> updateExpense 30 3 1 (demo_update 250) db5
       = (reply 403 False (Error ''Not authorized to update this expense''), db5)
   \<and> deleteExpense 3 1 db5
       = (reply 403 False (Error ''Not authorized to delete this expense''), db5)
   \<and> deleteExpense 1 7 db5 = (reply 404 False (Error ''Expense not found''), db5)
   \<and> updateExpense 30 2 1 (demo_update 0) db5
       = (reply 500 False (Error ''Failed to update expense''), db5)"
proof -
  have valid: "expense_updates_valid (demo_update 250)" "\<not> expense_updates_valid (demo_update 0)"
    by (simp_all add: expense_updates_valid_def demo_update_def expense_amount_valid_def)
  have roles: "e_createdBy demo_design = 2" "p_createdBy (demo_site [1, 2, 3] 21) = 1"
    "3 \<in> set (p_members (demo_site [1, 2, 3] 21))"
    by (simp_all add: demo_design_def demo_site_def)
  have updated: "set_expense (demo_update 250) 30 demo_design
                   = demo_design\<lparr> e_amount := 250, e_updatedAt := 30 \<rparr>"
    by (simp add: set_expense_def demo_update_def demo_design_def)
  note auth = expense_authorization [where s = db5 and eid = 1 and e = demo_design
      and p = "demo_site [1, 2, 3] 21" and now = 30]
  from auth [where user = 2 and b = "demo_update 250"] find_db5 roles valid updated
  have creator: "fst (updateExpense 30 2 1 (demo_update 250) db5)
       = reply 200 True (ExpenseData (demo_design\<lparr> e_amount := 250, e_updatedAt := 30 \<rparr>))"
    by simp
  from auth [where user = 1 and b = "demo_update 250"] find_db5 roles
  have owner: "fst (deleteExpense 1 1 db5) = reply 200 True Deleted"
    by simp
  from auth [where user = 3 and b = "demo_update 250"] find_db5 roles
  have member: "updateExpense 30 3 1 (demo_update 250) db5
       = (reply 403 False (Error ''Not authorized to update this expense''), db5)"
    "deleteExpense 3 1 db5
       = (reply 403 False (Error ''Not authorized to delete this expense''), db5)"
    by simp_all
  from expense_authorization [where s = db5 and eid = 7 and user = 1] find_db5
  have missing: "deleteExpense 1 7 db5 = (reply 404 False (Error ''Expense not found''), db5)"
    by simp
  from auth [where user = 2 and b = "demo_update 0"] find_db5 roles valid
  have invalid: "updateExpense 30 2 1 (demo_update 0) db5
       = (reply 500 False (Error ''Failed to update expense''), db5)"
    by simp
  show ?thesis
    using roles creator owner member missing invalid by simp
qed

theorem updateExpense_creator_rejected_counterexample:
  "find (\<lambda>e. e_id e = 1) (expenses db5) = Some demo_design
   \<and> e_createdBy demo_design = 2
   \<and> status (fst (updateExpense 30 2 1 (demo_update (- 1)) db5)) = 500
   \<and> snd (updateExpense 30 2 1 (demo_update (- 1)) db5) = db5"
  by (simp add: updateExpense_def db5_eq demo_design_def demo_marketing_def demo_site_def
      check_permission_def expense_updates_valid_def demo_update_def expense_amount_valid_def
      reply_def)

section \<open>The summary by category\<close>

lemma keys_accumulate:
  "map fst (accumulate c a gs) = (if c \<in> set (map fst gs) then map fst gs else map fst gs @ [c])"
  by (induction c a gs rule: accumulate.induct) auto

lemma keys_accumulate_set: "fst ` set (accumulate c a gs) = insert c (fst ` set gs)"
  using arg_cong [OF keys_accumulate [of c a gs], of set] by (auto split: if_splits)

lemma acc_of_Nil: "acc_of [] k = (0, 0)"
  by (simp add: acc_of_def)

lemma acc_of_accumulate:
  "acc_of (accumulate c a gs) k =
     (if k = c then (fst (acc_of gs k) + a, snd (acc_of gs k) + 1) else acc_of gs k)"
  by (induction c a gs rule: accumulate.induct) (auto simp: acc_of_def)

lemma keys_foldl:
  "fst ` set (foldl (\<lambda>gs e. accumulate (e_category e) (e_amount e) gs) gs es)
     = fst ` set gs \<union> e_category ` set es"
  by (induction es arbitrary: gs) (simp_all add: keys_accumulate_set)

lemma distinct_foldl:
  "distinct (map fst gs) \<Longrightarrow>
   distinct (map fst (foldl (\<lambda>gs e. accumulate (e_category e) (e_amount e) gs) gs es))"
proof (induction es arbitrary: gs)
  case Nil
  then show ?case by simp
next
  case (Cons e es)
  have "distinct (map fst (accumulate (e_category e) (e_amount e) gs))"
    using Cons.prems by (simp add: keys_accumulate)
  then show ?case
    using Cons.IH by simp
qed

lemma acc_of_foldl:
  "acc_of (foldl (\<lambda>gs e. accumulate (e_category e) (e_amount e) gs) gs es) k =
     (fst (acc_of gs k) + sum_list (map e_amount (filter (\<lambda>e. e_category e = k) es)),
      snd (acc_of gs k) + length (filter (\<lambda>e. e_category e = k) es))"
  by (induction es arbitrary: gs) (auto simp: acc_of_accumulate)

lemma group_stage_keys: "fst ` set (group_stage es) = e_category ` set es"
  unfolding group_stage_def by (simp add: keys_foldl)

lemma group_stage_distinct: "distinct (map fst (group_stage es))"
  unfolding group_stage_def by (rule distinct_foldl) simp

lemma group_stage_member:
  assumes "(k, t, n) \<in> set (group_stage es)"
  shows "t = sum_list (map e_amount (filter (\<lambda>e. e_category e = k) es))
         \<and> n = length (filter (\<lambda>e. e_category e = k) es)"
proof -
  have "map_of (group_stage es) k = Some (t, n)"
    using assms group_stage_distinct by (rule_tac map_of_is_SomeI) auto
  then have "acc_of (group_stage es) k = (t, n)"
    by (simp add: acc_of_def)
  moreover have "acc_of (group_stage es) k =
     (sum_list (map e_amount (filter (\<lambda>e. e_category e = k) es)),
      length (filter (\<lambda>e. e_category e = k) es))"
    unfolding group_stage_def by (simp add: acc_of_foldl acc_of_Nil)
  ultimately show ?thesis by simp
qed

lemma sort_stage_set: "set (sort_stage gs) = set gs"
  by (simp add: sort_stage_def)

lemma sort_stage_distinct: "distinct (map fst gs) \<Longrightarrow> distinct (map fst (sort_stage gs))"
  by (simp add: sort_stage_def distinct_map)

lemma sort_stage_descending:
  "sorted_wrt (\<lambda>g h. fst (snd g) \<ge> fst (snd h)) (sort_stage gs)"
proof -
  have "sorted (map (\<lambda>(k, tot, cnt). - tot) (sort_stage gs))"
    unfolding sort_stage_def by (rule sorted_sort_key)
  then have "sorted_wrt (\<lambda>g h. (case g of (k, tot, cnt) \<Rightarrow> - tot) \<le> (case h of (k, tot, cnt) \<Rightarrow> - tot))
               (sort_stage gs)"
    by (simp add: sorted_map)
  then show ?thesis
    by (rule sorted_wrt_mono_rel [rotated]) (auto split: prod.splits)
qed

text \<open>
  C9, as the code has it. For a caller with access to the project, the summary
  is one document per category that occurs among the expenses of the project.
  The document of a category has the keys \<open>_id\<close>, \<open>total\<close> and \<open>count\<close>: the category
  is under \<open>_id\<close>, \<open>total\<close> is the sum of the amounts of the expenses of the project
  in that category and \<open>count\<close> their number. The documents come by decreasing total.
\<close>

theorem summary_groups:
  assumes "find (\<lambda>p. p_id p = pid \<and> has_access user p) (projects s) = Some p"
  shows "\<exists>gs. summary user pid s = (reply 200 True (SummaryData (map group_document gs)), s)
           \<and> distinct (map fst gs)
           \<and> set (map fst gs) = e_category ` set (filter (\<lambda>e. e_project e = pid) (expenses s))
           \<and> (\<forall>(k, t, n)\<in>set gs.
                 t = sum_list (map e_amount
                       (filter (\<lambda>e. e_category e = k) (filter (\<lambda>e. e_project e = pid) (expenses s))))
                 \<and> n = length
                       (filter (\<lambda>e. e_category e = k) (filter (\<lambda>e. e_project e = pid) (expenses s)))
                 \<and> group_document (k, t, n) =
                     [(''_id'', JString k), (''total'', JNumber t), (''count'', JNumber (of_nat n))])
           \<and> sorted_wrt (\<lambda>g h. fst (snd g) \<ge> fst (snd h)) gs"
proof -
  let ?es = "filter (\<lambda>e. e_project e = pid) (expenses s)"
  let ?gs = "sort_stage (group_stage ?es)"
  have "p_id p = pid"
    using assms by (auto dest: find_SomeD)
  then have "summary user pid s = (reply 200 True (SummaryData (map group_document ?gs)), s)"
    using assms by (simp add: summary_def aggregate_def)
  moreover have "distinct (map fst ?gs)"
    by (simp add: sort_stage_distinct group_stage_distinct)
  moreover have "set (map fst ?gs) = e_category ` set ?es"
    using group_stage_keys [of ?es] by (simp add: sort_stage_set)
  moreover have "\<forall>(k, t, n)\<in>set ?gs.
                 t = sum_list (map e_amount (filter (\<lambda>e. e_category e = k) ?es))
                 \<and> n = length (filter (\<lambda>e. e_category e = k) ?es)
                 \<and> group_document (k, t, n) =
                     [(''_id'', JString k), (''total'', JNumber t), (''count'', JNumber (of_nat n))]"
    using group_stage_member [of _ _ _ ?es] by (auto simp: sort_stage_set group_document_def)
  moreover have "sorted_wrt (\<lambda>g h. fst (snd g) \<ge> fst (snd h)) ?gs"
    by (rule sort_stage_descending)
  ultimately show ?thesis
    by blast
qed

lemma summary_db5:
  "summary 3 0 db5 =
     (reply 200 True (SummaryData
        [[(''_id'', JString ''marketing''), (''total'', JNumber 600), (''count'', JNumber 1)],
         [(''_id'', JString ''design''), (''total'', JNumber 200), (''count'', JNumber 1)]]), db5)"
  by (simp add: summary_def db5_eq demo_site_def demo_design_def demo_marketing_def has_access_def
       aggregate_def group_stage_def sort_stage_def group_document_def)

theorem summary_groups_witness:
  "find (\<lambda>p. p_id p = 0 \<and> has_access 3 p) (projects db5) = Some (demo_site [1, 2, 3] 21)
   \<and> (\<exists>gs. summary 3 0 db5 = (reply 200 True (SummaryData (map group_document gs)), db5)
         \<and> distinct (map fst gs)
         \<and> set (map fst gs) = {''design'', ''marketing''}
         \<and> sorted_wrt (\<lambda>g h. fst (snd g) \<ge> fst (snd h)) gs)
   \<and> summary 3 0 db5 =
     (reply 200 True (SummaryData
        [[(''_id'', JString ''marketing''), (''total'', JNumber 600), (''count'', JNumber 1)],
         [(''_id'', JString ''design''), (''total'', JNumber 200), (''count'', JNumber 1)]]), db5)"
proof -
  have access: "find (\<lambda>p. p_id p = 0 \<and> has_access 3 p) (projects db5) = Some (demo_site [1, 2, 3] 21)"
    by (simp add: db5_eq demo_site_def has_access_def)
  have cats: "e_category ` set (filter (\<lambda>e. e_project e = 0) (expenses db5))
                = {''design'', ''marketing''}"
    by (simp add: db5_eq demo_design_def demo_marketing_def)
  from summary_groups [OF access] cats
  have "\<exists>gs. summary 3 0 db5 = (reply 200 True (SummaryData (map group_document gs)), db5)
         \<and> distinct (map fst gs)
         \<and> set (map fst gs) = {''design'', ''marketing''}
         \<and> sorted_wrt (\<lambda>g h. fst (snd g) \<ge> fst (snd h)) gs"
    by auto
  with access summary_db5 show ?thesis
    by blast
qed

theorem summary_key_counterexample:
  "body (fst (summary 3 0 db5)) =
     SummaryData
       [[(''_id'', JString ''marketing''), (''total'', JNumber 600), (''count'', JNumber 1)],
        [(''_id'', JString ''design''), (''total'', JNumber 200), (''count'', JNumber 1)]]
   \<and> map_of [(''_id'', JString ''marketing''), (''total'', JNumber 600), (''count'', JNumber 1)]
        ''category'' = None
   \<and> map fst [(''_id'', JString ''marketing''), (''total'', JNumber 600), (''count'', JNumber 1)]
        \<noteq> [''category'', ''total'', ''count'']"
  using summary_db5 by (simp add: reply_def)

section \<open>What the validators guarantee of the store\<close>

text \<open>
  Every stored expense has an amount of at least 0.01 and refers to a project of
  the store. These are the facts the statements on the budget status and on the
  permission check take as given.
\<close>

lemma set_expense_amount:
  "expense_updates_valid u \<Longrightarrow> 1 / 100 \<le> e_amount e
   \<Longrightarrow> 1 / 100 \<le> e_amount (set_expense u now e)"
  by (auto simp: expense_updates_valid_def set_expense_def expense_amount_valid_def
           split: option.splits number.splits)

lemma handle_amounts: "amounts_valid s \<Longrightarrow> amounts_valid (snd (handle now r s))"
proof (cases r)
  case (CreateExpense user b)
  then show "amounts_valid s \<Longrightarrow> ?thesis"
    by (auto simp: amounts_valid_def createExpense_def expense_amount_valid_def Let_def
             split: option.splits number.splits)
next
  case (UpdateExpense user eid b)
  assume inv: "amounts_valid s"
  have "1 / 100 \<le> e_amount x"
    if "x \<in> set (update_first (\<lambda>e. e_id e = eid) (set_expense b now) (expenses s))"
      and "expense_updates_valid b" for x
  proof -
    from set_update_first [OF that(1)]
    have "x \<in> set (expenses s) \<or> (\<exists>y\<in>set (expenses s). x = set_expense b now y)"
      by blast
    then show ?thesis
      using inv set_expense_amount [OF that(2)] unfolding amounts_valid_def by blast
  qed
  then have "amounts_valid (snd (updateExpense now user eid b s))"
    using inv unfolding amounts_valid_def updateExpense_def
    by (simp split: option.splits permission.splits)
  with UpdateExpense show ?thesis
    by simp
next
  case (DeleteExpense user eid)
  then show "amounts_valid s \<Longrightarrow> ?thesis"
    using set_delete_first [of "\<lambda>e. e_id e = eid" "expenses s"]
    by (auto simp: amounts_valid_def deleteExpense_def split: option.splits permission.splits)
next
  case (DeleteProject user pid)
  then show "amounts_valid s \<Longrightarrow> ?thesis"
    by (auto simp: amounts_valid_def deleteProject_def split: option.splits)
qed (auto simp: amounts_valid_def createProject_def getProject_def updateProject_def addMember_def
       summary_def listProjects_def listExpenses_def Let_def split: option.splits number.splits)

lemma reachable_amounts:
  assumes "reachable s" and "e \<in> set (expenses s)"
  shows "1 / 100 \<le> e_amount e"
proof -
  from assms(1) have "amounts_valid s"
  proof (induction rule: reachable.induct)
    case initial
    show ?case by (simp add: amounts_valid_def empty_db_def)
  next
    case (step s now r)
    then show ?case by (simp add: handle_amounts)
  qed
  with assms(2) show ?thesis
    unfolding amounts_valid_def by blast
qed

lemma handle_references: "expenses_have_project s \<Longrightarrow> expenses_have_project (snd (handle now r s))"
proof (cases r)
  case (CreateProject user b)
  then show "expenses_have_project s \<Longrightarrow> ?thesis"
    by (auto simp: expenses_have_project_def createProject_def Let_def
             split: option.splits number.splits)
next
  case (UpdateProject user pid b)
  then show "expenses_have_project s \<Longrightarrow> ?thesis"
    by (auto simp: expenses_have_project_def updateProject_def Let_def update_first_image
          set_project_def split: option.splits)
next
  case (DeleteProject user pid)
  show "expenses_have_project s \<Longrightarrow> ?thesis"
  proof (cases "find (\<lambda>p. p_id p = pid \<and> p_createdBy p = user) (projects s)")
    case None
    with DeleteProject show "expenses_have_project s \<Longrightarrow> ?thesis"
      by (simp add: deleteProject_def)
  next
    case (Some q)
    then have q: "p_id q = pid"
      by (auto dest: find_SomeD)
    assume inv: "expenses_have_project s"
    have "e_project e \<in> p_id ` set (delete_first (\<lambda>p. p_id p = pid \<and> p_createdBy p = user) (projects s))"
      if "e \<in> set (expenses s)" "e_project e \<noteq> pid" for e
    proof -
      from inv that(1) obtain p where "p \<in> set (projects s)" "p_id p = e_project e"
        by (auto simp: expenses_have_project_def)
      with that(2) show ?thesis
        using delete_first_keeps [of p "projects s" "\<lambda>p. p_id p = pid \<and> p_createdBy p = user"]
        by force
    qed
    with DeleteProject Some q show ?thesis
      by (simp add: deleteProject_def expenses_have_project_def)
  qed
next
  case (AddMember user pid userId)
  then show "expenses_have_project s \<Longrightarrow> ?thesis"
    by (auto simp: expenses_have_project_def addMember_def Let_def update_first_image
             split: option.splits)
next
  case (CreateExpense user b)
  then show "expenses_have_project s \<Longrightarrow> ?thesis"
    by (auto simp: expenses_have_project_def createExpense_def Let_def pre_save_def update_first_image
             split: option.splits number.splits dest: find_SomeD)
next
  case (UpdateExpense user eid b)
  then show "expenses_have_project s \<Longrightarrow> ?thesis"
    by (auto simp: expenses_have_project_def updateExpense_def Let_def set_expense_def
             split: option.splits permission.splits dest!: set_update_first)
next
  case (DeleteExpense user eid)
  then show "expenses_have_project s \<Longrightarrow> ?thesis"
    using set_delete_first [of "\<lambda>e. e_id e = eid" "expenses s"]
    by (auto simp: expenses_have_project_def deleteExpense_def split: option.splits permission.splits)
qed (auto simp: getProject_def summary_def listProjects_def listExpenses_def split: option.splits)

lemma reachable_references:
  assumes "reachable s" and "e \<in> set (expenses s)"
  shows "\<exists>p. find (\<lambda>p. p_id p = e_project e) (projects s) = Some p"
proof -
  from assms(1) have "expenses_have_project s"
  proof (induction rule: reachable.induct)
    case initial
    show ?case by (simp add: expenses_have_project_def empty_db_def)
  next
    case (step s now r)
    then show ?case by (simp add: handle_references)
  qed
  with assms(2) obtain p where "p \<in> set (projects s)" "p_id p = e_project e"
    by (auto simp: expenses_have_project_def)
  then show ?thesis
    using find_exists [of p "projects s" "\<lambda>p. p_id p = e_project e"] by simp
qed

text \<open>
  So the budget status a reachable store serves through \<open>GET /:id\<close> is computed
  from amounts that are not negative.
\<close>

lemma reachable_totalExpenses:
  assumes "reachable s"
  shows "\<exists>xs. populate_totalExpenses s p = Some (map Some xs) \<and> (\<forall>x\<in>set xs. 0 \<le> x)"
proof -
  let ?xs = "map e_amount (filter (\<lambda>e. e_project e = p_id p) (expenses s))"
  have "populate_totalExpenses s p = Some (map Some ?xs)"
    by (simp add: populate_totalExpenses_def comp_def)
  moreover have "\<forall>x\<in>set ?xs. 0 \<le> x"
    using reachable_amounts [OF assms] by fastforce
  ultimately show ?thesis
    by blast
qed

end
